theory Spec2Isabelle
  imports Complex_Main "HOL-Library.Word"
begin

unbundle bit_operations_syntax

section \<open>Data model of \<open>dualmc.hpp\<close>\<close>

text \<open>
  The header defines one class template, \<open>Mesher<T>\<close>, with the public method \<open>Build\<close>.
  Conventions of the embedding:
  \<^item> \<open>int32_t\<close> values (coordinates, dimensions, linear addresses, cube codes, point codes)
    are \<open>int\<close>. Signed overflow is undefined behaviour in C++, so there is no
    wrap-around to model; the bit operations \<open>|\<close>, \<open>&\<close>, \<open>^\<close> are \<open>OR\<close>, \<open>AND\<close>, \<open>XOR\<close>.
  \<^item> \<open>uint32_t\<close> vertex indices are \<open>32 word\<close>; the cast of \<open>vertices.size()\<close> wraps.
  \<^item> \<open>uint8_t\<close> table entries are \<open>nat\<close>; the cast \<open>uint8_t(cubeCode)\<close> is written
    \<open>mod 256\<close>.
  \<^item> \<open>std::array<int32_t,3>\<close> and \<open>std::array<float,3>\<close> are triples.
  \<^item> Names are those of the source, except where HOL has the name already: the
    parameter \<open>iso\<close> is \<open>isoV\<close>, and the parameter \<open>pointCode\<close> of
    \<open>CalculateDualPoint\<close> is \<open>pcode\<close> (\<open>pointCode\<close> is the field of the key).
  \<^item> The sample type \<open>T\<close> is an ordered field \<open>'a\<close>; the casts to \<open>float\<close> are the
    identity and the arithmetic of \<open>CalculateDualPoint\<close> is exact. Rounding, infinities
    and NaN are not modelled (division by zero is \<open>0\<close> in HOL), so vertex coordinates
    are meaningful only where the source divides by a nonzero number.
  \<^item> \<open>std::span::operator[]\<close> is unchecked. A read is \<open>volume ! nat i\<close>. Lemma
    \<open>gA_in_bounds\<close> below shows that a coordinate inside the dimensions has an address
    inside \<open>dimX * dimY * dimZ\<close>, which the assertions of \<open>Build\<close> keep inside the
    buffer; the sweep reads at such coordinates only.
\<close>

type_synonym int3 = "int \<times> int \<times> int"
type_synonym 'a float3 = "'a \<times> 'a \<times> 'a"

record 'a Vertex =
  position :: "'a float3"

datatype Topology = Triangles | Quads

record 'a Mesh =
  vertices :: "'a Vertex list"
  indices :: "32 word list"

datatype DualPointKey = DualPointKey (linearizedCellID: int) (pointCode: int)

text \<open>The private fields of \<open>Mesher<T>\<close>.\<close>

record 'a Mesher =
  dims :: int3
  volume :: "'a list"
  generateManifold :: bool
  pointToIndex :: "DualPointKey \<rightharpoonup> 32 word"

text \<open>\<open>a[k]\<close> and \<open>a[k] += d\<close> on a \<open>std::array<int32_t,3>\<close>; \<open>k\<close> is \<open>0\<close>, \<open>1\<close> or \<open>2\<close>
  wherever the source indexes one.\<close>

fun int3_get :: "int3 \<Rightarrow> nat \<Rightarrow> int" where
  "int3_get (x, y, z) k = (if k = 0 then x else if k = 1 then y else z)"

fun int3_add :: "int3 \<Rightarrow> nat \<Rightarrow> int \<Rightarrow> int3" where
  "int3_add (x, y, z) k d =
     (if k = 0 then (x + d, y, z) else if k = 1 then (x, y + d, z) else (x, y, z + d))"

subsection \<open>Edge codes and lookup tables\<close>

definition EDGE0 :: int where "EDGE0 = 1"
definition EDGE1 :: int where "EDGE1 = push_bit 1 1"
definition EDGE2 :: int where "EDGE2 = push_bit 2 1"
definition EDGE3 :: int where "EDGE3 = push_bit 3 1"
definition EDGE4 :: int where "EDGE4 = push_bit 4 1"
definition EDGE5 :: int where "EDGE5 = push_bit 5 1"
definition EDGE6 :: int where "EDGE6 = push_bit 6 1"
definition EDGE7 :: int where "EDGE7 = push_bit 7 1"
definition EDGE8 :: int where "EDGE8 = push_bit 8 1"
definition EDGE9 :: int where "EDGE9 = push_bit 9 1"
definition EDGE10 :: int where "EDGE10 = push_bit 10 1"
definition EDGE11 :: int where "EDGE11 = push_bit 11 1"

text \<open>The table \<open>dualPointsList[256][4]\<close>, row by row as in the source.\<close>

definition dualPointsList :: "int list list" where
  "dualPointsList = [
    [0, 0, 0, 0],
    [EDGE0 OR EDGE3 OR EDGE8, 0, 0, 0],
    [EDGE0 OR EDGE1 OR EDGE9, 0, 0, 0],
    [EDGE1 OR EDGE3 OR EDGE8 OR EDGE9, 0, 0, 0],
    [EDGE4 OR EDGE7 OR EDGE8, 0, 0, 0],
    [EDGE0 OR EDGE3 OR EDGE4 OR EDGE7, 0, 0, 0],
    [EDGE0 OR EDGE1 OR EDGE9, EDGE4 OR EDGE7 OR EDGE8, 0, 0],
    [EDGE1 OR EDGE3 OR EDGE4 OR EDGE7 OR EDGE9, 0, 0, 0],
    [EDGE4 OR EDGE5 OR EDGE9, 0, 0, 0],
    [EDGE0 OR EDGE3 OR EDGE8, EDGE4 OR EDGE5 OR EDGE9, 0, 0],
    [EDGE0 OR EDGE1 OR EDGE4 OR EDGE5, 0, 0, 0],
    [EDGE1 OR EDGE3 OR EDGE4 OR EDGE5 OR EDGE8, 0, 0, 0],
    [EDGE5 OR EDGE7 OR EDGE8 OR EDGE9, 0, 0, 0],
    [EDGE0 OR EDGE3 OR EDGE5 OR EDGE7 OR EDGE9, 0, 0, 0],
    [EDGE0 OR EDGE1 OR EDGE5 OR EDGE7 OR EDGE8, 0, 0, 0],
    [EDGE1 OR EDGE3 OR EDGE5 OR EDGE7, 0, 0, 0],
    [EDGE2 OR EDGE3 OR EDGE11, 0, 0, 0],
    [EDGE0 OR EDGE2 OR EDGE8 OR EDGE11, 0, 0, 0],
    [EDGE0 OR EDGE1 OR EDGE9, EDGE2 OR EDGE3 OR EDGE11, 0, 0],
    [EDGE1 OR EDGE2 OR EDGE8 OR EDGE9 OR EDGE11, 0, 0, 0],
    [EDGE4 OR EDGE7 OR EDGE8, EDGE2 OR EDGE3 OR EDGE11, 0, 0],
    [EDGE0 OR EDGE2 OR EDGE4 OR EDGE7 OR EDGE11, 0, 0, 0],
    [EDGE0 OR EDGE1 OR EDGE9, EDGE4 OR EDGE7 OR EDGE8, EDGE2 OR EDGE3 OR EDGE11, 0],
    [EDGE1 OR EDGE2 OR EDGE4 OR EDGE7 OR EDGE9 OR EDGE11, 0, 0, 0],
    [EDGE4 OR EDGE5 OR EDGE9, EDGE2 OR EDGE3 OR EDGE11, 0, 0],
    [EDGE0 OR EDGE2 OR EDGE8 OR EDGE11, EDGE4 OR EDGE5 OR EDGE9, 0, 0],
    [EDGE0 OR EDGE1 OR EDGE4 OR EDGE5, EDGE2 OR EDGE3 OR EDGE11, 0, 0],
    [EDGE1 OR EDGE2 OR EDGE4 OR EDGE5 OR EDGE8 OR EDGE11, 0, 0, 0],
    [EDGE5 OR EDGE7 OR EDGE8 OR EDGE9, EDGE2 OR EDGE3 OR EDGE11, 0, 0],
    [EDGE0 OR EDGE2 OR EDGE5 OR EDGE7 OR EDGE9 OR EDGE11, 0, 0, 0],
    [EDGE0 OR EDGE1 OR EDGE5 OR EDGE7 OR EDGE8, EDGE2 OR EDGE3 OR EDGE11, 0, 0],
    [EDGE1 OR EDGE2 OR EDGE5 OR EDGE7 OR EDGE11, 0, 0, 0],
    [EDGE1 OR EDGE2 OR EDGE10, 0, 0, 0],
    [EDGE0 OR EDGE3 OR EDGE8, EDGE1 OR EDGE2 OR EDGE10, 0, 0],
    [EDGE0 OR EDGE2 OR EDGE9 OR EDGE10, 0, 0, 0],
    [EDGE2 OR EDGE3 OR EDGE8 OR EDGE9 OR EDGE10, 0, 0, 0],
    [EDGE4 OR EDGE7 OR EDGE8, EDGE1 OR EDGE2 OR EDGE10, 0, 0],
    [EDGE0 OR EDGE3 OR EDGE4 OR EDGE7, EDGE1 OR EDGE2 OR EDGE10, 0, 0],
    [EDGE0 OR EDGE2 OR EDGE9 OR EDGE10, EDGE4 OR EDGE7 OR EDGE8, 0, 0],
    [EDGE2 OR EDGE3 OR EDGE4 OR EDGE7 OR EDGE9 OR EDGE10, 0, 0, 0],
    [EDGE4 OR EDGE5 OR EDGE9, EDGE1 OR EDGE2 OR EDGE10, 0, 0],
    [EDGE0 OR EDGE3 OR EDGE8, EDGE4 OR EDGE5 OR EDGE9, EDGE1 OR EDGE2 OR EDGE10, 0],
    [EDGE0 OR EDGE2 OR EDGE4 OR EDGE5 OR EDGE10, 0, 0, 0],
    [EDGE2 OR EDGE3 OR EDGE4 OR EDGE5 OR EDGE8 OR EDGE10, 0, 0, 0],
    [EDGE5 OR EDGE7 OR EDGE8 OR EDGE9, EDGE1 OR EDGE2 OR EDGE10, 0, 0],
    [EDGE0 OR EDGE3 OR EDGE5 OR EDGE7 OR EDGE9, EDGE1 OR EDGE2 OR EDGE10, 0, 0],
    [EDGE0 OR EDGE2 OR EDGE5 OR EDGE7 OR EDGE8 OR EDGE10, 0, 0, 0],
    [EDGE2 OR EDGE3 OR EDGE5 OR EDGE7 OR EDGE10, 0, 0, 0],
    [EDGE1 OR EDGE3 OR EDGE10 OR EDGE11, 0, 0, 0],
    [EDGE0 OR EDGE1 OR EDGE8 OR EDGE10 OR EDGE11, 0, 0, 0],
    [EDGE0 OR EDGE3 OR EDGE9 OR EDGE10 OR EDGE11, 0, 0, 0],
    [EDGE8 OR EDGE9 OR EDGE10 OR EDGE11, 0, 0, 0],
    [EDGE4 OR EDGE7 OR EDGE8, EDGE1 OR EDGE3 OR EDGE10 OR EDGE11, 0, 0],
    [EDGE0 OR EDGE1 OR EDGE4 OR EDGE7 OR EDGE10 OR EDGE11, 0, 0, 0],
    [EDGE0 OR EDGE3 OR EDGE9 OR EDGE10 OR EDGE11, EDGE4 OR EDGE7 OR EDGE8, 0, 0],
    [EDGE4 OR EDGE7 OR EDGE9 OR EDGE10 OR EDGE11, 0, 0, 0],
    [EDGE4 OR EDGE5 OR EDGE9, EDGE1 OR EDGE3 OR EDGE10 OR EDGE11, 0, 0],
    [EDGE0 OR EDGE1 OR EDGE8 OR EDGE10 OR EDGE11, EDGE4 OR EDGE5 OR EDGE9, 0, 0],
    [EDGE0 OR EDGE3 OR EDGE4 OR EDGE5 OR EDGE10 OR EDGE11, 0, 0, 0],
    [EDGE4 OR EDGE5 OR EDGE8 OR EDGE10 OR EDGE11, 0, 0, 0],
    [EDGE5 OR EDGE7 OR EDGE8 OR EDGE9, EDGE1 OR EDGE3 OR EDGE10 OR EDGE11, 0, 0],
    [EDGE0 OR EDGE1 OR EDGE5 OR EDGE7 OR EDGE9 OR EDGE10 OR EDGE11, 0, 0, 0],
    [EDGE0 OR EDGE3 OR EDGE5 OR EDGE7 OR EDGE8 OR EDGE10 OR EDGE11, 0, 0, 0],
    [EDGE5 OR EDGE7 OR EDGE10 OR EDGE11, 0, 0, 0],
    [EDGE6 OR EDGE7 OR EDGE11, 0, 0, 0],
    [EDGE0 OR EDGE3 OR EDGE8, EDGE6 OR EDGE7 OR EDGE11, 0, 0],
    [EDGE0 OR EDGE1 OR EDGE9, EDGE6 OR EDGE7 OR EDGE11, 0, 0],
    [EDGE1 OR EDGE3 OR EDGE8 OR EDGE9, EDGE6 OR EDGE7 OR EDGE11, 0, 0],
    [EDGE4 OR EDGE6 OR EDGE8 OR EDGE11, 0, 0, 0],
    [EDGE0 OR EDGE3 OR EDGE4 OR EDGE6 OR EDGE11, 0, 0, 0],
    [EDGE0 OR EDGE1 OR EDGE9, EDGE4 OR EDGE6 OR EDGE8 OR EDGE11, 0, 0],
    [EDGE1 OR EDGE3 OR EDGE4 OR EDGE6 OR EDGE9 OR EDGE11, 0, 0, 0],
    [EDGE4 OR EDGE5 OR EDGE9, EDGE6 OR EDGE7 OR EDGE11, 0, 0],
    [EDGE0 OR EDGE3 OR EDGE8, EDGE4 OR EDGE5 OR EDGE9, EDGE6 OR EDGE7 OR EDGE11, 0],
    [EDGE0 OR EDGE1 OR EDGE4 OR EDGE5, EDGE6 OR EDGE7 OR EDGE11, 0, 0],
    [EDGE1 OR EDGE3 OR EDGE4 OR EDGE5 OR EDGE8, EDGE6 OR EDGE7 OR EDGE11, 0, 0],
    [EDGE5 OR EDGE6 OR EDGE8 OR EDGE9 OR EDGE11, 0, 0, 0],
    [EDGE0 OR EDGE3 OR EDGE5 OR EDGE6 OR EDGE9 OR EDGE11, 0, 0, 0],
    [EDGE0 OR EDGE1 OR EDGE5 OR EDGE6 OR EDGE8 OR EDGE11, 0, 0, 0],
    [EDGE1 OR EDGE3 OR EDGE5 OR EDGE6 OR EDGE11, 0, 0, 0],
    [EDGE2 OR EDGE3 OR EDGE6 OR EDGE7, 0, 0, 0],
    [EDGE0 OR EDGE2 OR EDGE6 OR EDGE7 OR EDGE8, 0, 0, 0],
    [EDGE0 OR EDGE1 OR EDGE9, EDGE2 OR EDGE3 OR EDGE6 OR EDGE7, 0, 0],
    [EDGE1 OR EDGE2 OR EDGE6 OR EDGE7 OR EDGE8 OR EDGE9, 0, 0, 0],
    [EDGE2 OR EDGE3 OR EDGE4 OR EDGE6 OR EDGE8, 0, 0, 0],
    [EDGE0 OR EDGE2 OR EDGE4 OR EDGE6, 0, 0, 0],
    [EDGE0 OR EDGE1 OR EDGE9, EDGE2 OR EDGE3 OR EDGE4 OR EDGE6 OR EDGE8, 0, 0],
    [EDGE1 OR EDGE2 OR EDGE4 OR EDGE6 OR EDGE9, 0, 0, 0],
    [EDGE4 OR EDGE5 OR EDGE9, EDGE2 OR EDGE3 OR EDGE6 OR EDGE7, 0, 0],
    [EDGE0 OR EDGE2 OR EDGE6 OR EDGE7 OR EDGE8, EDGE4 OR EDGE5 OR EDGE9, 0, 0],
    [EDGE0 OR EDGE1 OR EDGE4 OR EDGE5, EDGE2 OR EDGE3 OR EDGE6 OR EDGE7, 0, 0],
    [EDGE1 OR EDGE2 OR EDGE4 OR EDGE5 OR EDGE6 OR EDGE7 OR EDGE8, 0, 0, 0],
    [EDGE2 OR EDGE3 OR EDGE5 OR EDGE6 OR EDGE8 OR EDGE9, 0, 0, 0],
    [EDGE0 OR EDGE2 OR EDGE5 OR EDGE6 OR EDGE9, 0, 0, 0],
    [EDGE0 OR EDGE1 OR EDGE2 OR EDGE3 OR EDGE5 OR EDGE6 OR EDGE8, 0, 0, 0],
    [EDGE1 OR EDGE2 OR EDGE5 OR EDGE6, 0, 0, 0],
    [EDGE1 OR EDGE2 OR EDGE10, EDGE6 OR EDGE7 OR EDGE11, 0, 0],
    [EDGE0 OR EDGE3 OR EDGE8, EDGE1 OR EDGE2 OR EDGE10, EDGE6 OR EDGE7 OR EDGE11, 0],
    [EDGE0 OR EDGE2 OR EDGE9 OR EDGE10, EDGE6 OR EDGE7 OR EDGE11, 0, 0],
    [EDGE2 OR EDGE3 OR EDGE8 OR EDGE9 OR EDGE10, EDGE6 OR EDGE7 OR EDGE11, 0, 0],
    [EDGE4 OR EDGE6 OR EDGE8 OR EDGE11, EDGE1 OR EDGE2 OR EDGE10, 0, 0],
    [EDGE0 OR EDGE3 OR EDGE4 OR EDGE6 OR EDGE11, EDGE1 OR EDGE2 OR EDGE10, 0, 0],
    [EDGE0 OR EDGE2 OR EDGE9 OR EDGE10, EDGE4 OR EDGE6 OR EDGE8 OR EDGE11, 0, 0],
    [EDGE2 OR EDGE3 OR EDGE4 OR EDGE6 OR EDGE9 OR EDGE10 OR EDGE11, 0, 0, 0],
    [EDGE4 OR EDGE5 OR EDGE9, EDGE1 OR EDGE2 OR EDGE10, EDGE6 OR EDGE7 OR EDGE11, 0],
    [EDGE0 OR EDGE3 OR EDGE8, EDGE4 OR EDGE5 OR EDGE9, EDGE1 OR EDGE2 OR EDGE10, EDGE6 OR EDGE7 OR EDGE11],
    [EDGE0 OR EDGE2 OR EDGE4 OR EDGE5 OR EDGE10, EDGE6 OR EDGE7 OR EDGE11, 0, 0],
    [EDGE2 OR EDGE3 OR EDGE4 OR EDGE5 OR EDGE8 OR EDGE10, EDGE6 OR EDGE7 OR EDGE11, 0, 0],
    [EDGE5 OR EDGE6 OR EDGE8 OR EDGE9 OR EDGE11, EDGE1 OR EDGE2 OR EDGE10, 0, 0],
    [EDGE0 OR EDGE3 OR EDGE5 OR EDGE6 OR EDGE9 OR EDGE11, EDGE1 OR EDGE2 OR EDGE10, 0, 0],
    [EDGE0 OR EDGE2 OR EDGE5 OR EDGE6 OR EDGE8 OR EDGE10 OR EDGE11, 0, 0, 0],
    [EDGE2 OR EDGE3 OR EDGE5 OR EDGE6 OR EDGE10 OR EDGE11, 0, 0, 0],
    [EDGE1 OR EDGE3 OR EDGE6 OR EDGE7 OR EDGE10, 0, 0, 0],
    [EDGE0 OR EDGE1 OR EDGE6 OR EDGE7 OR EDGE8 OR EDGE10, 0, 0, 0],
    [EDGE0 OR EDGE3 OR EDGE6 OR EDGE7 OR EDGE9 OR EDGE10, 0, 0, 0],
    [EDGE6 OR EDGE7 OR EDGE8 OR EDGE9 OR EDGE10, 0, 0, 0],
    [EDGE1 OR EDGE3 OR EDGE4 OR EDGE6 OR EDGE8 OR EDGE10, 0, 0, 0],
    [EDGE0 OR EDGE1 OR EDGE4 OR EDGE6 OR EDGE10, 0, 0, 0],
    [EDGE0 OR EDGE3 OR EDGE4 OR EDGE6 OR EDGE8 OR EDGE9 OR EDGE10, 0, 0, 0],
    [EDGE4 OR EDGE6 OR EDGE9 OR EDGE10, 0, 0, 0],
    [EDGE4 OR EDGE5 OR EDGE9, EDGE1 OR EDGE3 OR EDGE6 OR EDGE7 OR EDGE10, 0, 0],
    [EDGE0 OR EDGE1 OR EDGE6 OR EDGE7 OR EDGE8 OR EDGE10, EDGE4 OR EDGE5 OR EDGE9, 0, 0],
    [EDGE0 OR EDGE3 OR EDGE4 OR EDGE5 OR EDGE6 OR EDGE7 OR EDGE10, 0, 0, 0],
    [EDGE4 OR EDGE5 OR EDGE6 OR EDGE7 OR EDGE8 OR EDGE10, 0, 0, 0],
    [EDGE1 OR EDGE3 OR EDGE5 OR EDGE6 OR EDGE8 OR EDGE9 OR EDGE10, 0, 0, 0],
    [EDGE0 OR EDGE1 OR EDGE5 OR EDGE6 OR EDGE9 OR EDGE10, 0, 0, 0],
    [EDGE0 OR EDGE3 OR EDGE8, EDGE5 OR EDGE6 OR EDGE10, 0, 0],
    [EDGE5 OR EDGE6 OR EDGE10, 0, 0, 0],
    [EDGE5 OR EDGE6 OR EDGE10, 0, 0, 0],
    [EDGE0 OR EDGE3 OR EDGE8, EDGE5 OR EDGE6 OR EDGE10, 0, 0],
    [EDGE0 OR EDGE1 OR EDGE9, EDGE5 OR EDGE6 OR EDGE10, 0, 0],
    [EDGE1 OR EDGE3 OR EDGE8 OR EDGE9, EDGE5 OR EDGE6 OR EDGE10, 0, 0],
    [EDGE4 OR EDGE7 OR EDGE8, EDGE5 OR EDGE6 OR EDGE10, 0, 0],
    [EDGE0 OR EDGE3 OR EDGE4 OR EDGE7, EDGE5 OR EDGE6 OR EDGE10, 0, 0],
    [EDGE0 OR EDGE1 OR EDGE9, EDGE4 OR EDGE7 OR EDGE8, EDGE5 OR EDGE6 OR EDGE10, 0],
    [EDGE1 OR EDGE3 OR EDGE4 OR EDGE7 OR EDGE9, EDGE5 OR EDGE6 OR EDGE10, 0, 0],
    [EDGE4 OR EDGE6 OR EDGE9 OR EDGE10, 0, 0, 0],
    [EDGE0 OR EDGE3 OR EDGE8, EDGE4 OR EDGE6 OR EDGE9 OR EDGE10, 0, 0],
    [EDGE0 OR EDGE1 OR EDGE4 OR EDGE6 OR EDGE10, 0, 0, 0],
    [EDGE1 OR EDGE3 OR EDGE4 OR EDGE6 OR EDGE8 OR EDGE10, 0, 0, 0],
    [EDGE6 OR EDGE7 OR EDGE8 OR EDGE9 OR EDGE10, 0, 0, 0],
    [EDGE0 OR EDGE3 OR EDGE6 OR EDGE7 OR EDGE9 OR EDGE10, 0, 0, 0],
    [EDGE0 OR EDGE1 OR EDGE6 OR EDGE7 OR EDGE8 OR EDGE10, 0, 0, 0],
    [EDGE1 OR EDGE3 OR EDGE6 OR EDGE7 OR EDGE10, 0, 0, 0],
    [EDGE2 OR EDGE3 OR EDGE11, EDGE5 OR EDGE6 OR EDGE10, 0, 0],
    [EDGE0 OR EDGE2 OR EDGE8 OR EDGE11, EDGE5 OR EDGE6 OR EDGE10, 0, 0],
    [EDGE0 OR EDGE1 OR EDGE9, EDGE2 OR EDGE3 OR EDGE11, EDGE5 OR EDGE6 OR EDGE10, 0],
    [EDGE1 OR EDGE2 OR EDGE8 OR EDGE9 OR EDGE11, EDGE5 OR EDGE6 OR EDGE10, 0, 0],
    [EDGE4 OR EDGE7 OR EDGE8, EDGE2 OR EDGE3 OR EDGE11, EDGE5 OR EDGE6 OR EDGE10, 0],
    [EDGE0 OR EDGE2 OR EDGE4 OR EDGE7 OR EDGE11, EDGE5 OR EDGE6 OR EDGE10, 0, 0],
    [EDGE0 OR EDGE1 OR EDGE9, EDGE4 OR EDGE7 OR EDGE8, EDGE2 OR EDGE3 OR EDGE11, EDGE5 OR EDGE6 OR EDGE10],
    [EDGE1 OR EDGE2 OR EDGE4 OR EDGE7 OR EDGE9 OR EDGE11, EDGE5 OR EDGE6 OR EDGE10, 0, 0],
    [EDGE4 OR EDGE6 OR EDGE9 OR EDGE10, EDGE2 OR EDGE3 OR EDGE11, 0, 0],
    [EDGE0 OR EDGE2 OR EDGE8 OR EDGE11, EDGE4 OR EDGE6 OR EDGE9 OR EDGE10, 0, 0],
    [EDGE0 OR EDGE1 OR EDGE4 OR EDGE6 OR EDGE10, EDGE2 OR EDGE3 OR EDGE11, 0, 0],
    [EDGE1 OR EDGE2 OR EDGE4 OR EDGE6 OR EDGE8 OR EDGE10 OR EDGE11, 0, 0, 0],
    [EDGE6 OR EDGE7 OR EDGE8 OR EDGE9 OR EDGE10, EDGE2 OR EDGE3 OR EDGE11, 0, 0],
    [EDGE0 OR EDGE2 OR EDGE6 OR EDGE7 OR EDGE9 OR EDGE10 OR EDGE11, 0, 0, 0],
    [EDGE0 OR EDGE1 OR EDGE6 OR EDGE7 OR EDGE8 OR EDGE10, EDGE2 OR EDGE3 OR EDGE11, 0, 0],
    [EDGE1 OR EDGE2 OR EDGE6 OR EDGE7 OR EDGE10 OR EDGE11, 0, 0, 0],
    [EDGE1 OR EDGE2 OR EDGE5 OR EDGE6, 0, 0, 0],
    [EDGE0 OR EDGE3 OR EDGE8, EDGE1 OR EDGE2 OR EDGE5 OR EDGE6, 0, 0],
    [EDGE0 OR EDGE2 OR EDGE5 OR EDGE6 OR EDGE9, 0, 0, 0],
    [EDGE2 OR EDGE3 OR EDGE5 OR EDGE6 OR EDGE8 OR EDGE9, 0, 0, 0],
    [EDGE4 OR EDGE7 OR EDGE8, EDGE1 OR EDGE2 OR EDGE5 OR EDGE6, 0, 0],
    [EDGE0 OR EDGE3 OR EDGE4 OR EDGE7, EDGE1 OR EDGE2 OR EDGE5 OR EDGE6, 0, 0],
    [EDGE0 OR EDGE2 OR EDGE5 OR EDGE6 OR EDGE9, EDGE4 OR EDGE7 OR EDGE8, 0, 0],
    [EDGE2 OR EDGE3 OR EDGE4 OR EDGE5 OR EDGE6 OR EDGE7 OR EDGE9, 0, 0, 0],
    [EDGE1 OR EDGE2 OR EDGE4 OR EDGE6 OR EDGE9, 0, 0, 0],
    [EDGE0 OR EDGE3 OR EDGE8, EDGE1 OR EDGE2 OR EDGE4 OR EDGE6 OR EDGE9, 0, 0],
    [EDGE0 OR EDGE2 OR EDGE4 OR EDGE6, 0, 0, 0],
    [EDGE2 OR EDGE3 OR EDGE4 OR EDGE6 OR EDGE8, 0, 0, 0],
    [EDGE1 OR EDGE2 OR EDGE6 OR EDGE7 OR EDGE8 OR EDGE9, 0, 0, 0],
    [EDGE0 OR EDGE1 OR EDGE2 OR EDGE3 OR EDGE6 OR EDGE7 OR EDGE9, 0, 0, 0],
    [EDGE0 OR EDGE2 OR EDGE6 OR EDGE7 OR EDGE8, 0, 0, 0],
    [EDGE2 OR EDGE3 OR EDGE6 OR EDGE7, 0, 0, 0],
    [EDGE1 OR EDGE3 OR EDGE5 OR EDGE6 OR EDGE11, 0, 0, 0],
    [EDGE0 OR EDGE1 OR EDGE5 OR EDGE6 OR EDGE8 OR EDGE11, 0, 0, 0],
    [EDGE0 OR EDGE3 OR EDGE5 OR EDGE6 OR EDGE9 OR EDGE11, 0, 0, 0],
    [EDGE5 OR EDGE6 OR EDGE8 OR EDGE9 OR EDGE11, 0, 0, 0],
    [EDGE4 OR EDGE7 OR EDGE8, EDGE1 OR EDGE3 OR EDGE5 OR EDGE6 OR EDGE11, 0, 0],
    [EDGE0 OR EDGE1 OR EDGE4 OR EDGE5 OR EDGE6 OR EDGE7 OR EDGE11, 0, 0, 0],
    [EDGE0 OR EDGE3 OR EDGE5 OR EDGE6 OR EDGE9 OR EDGE11, EDGE4 OR EDGE7 OR EDGE8, 0, 0],
    [EDGE4 OR EDGE5 OR EDGE6 OR EDGE7 OR EDGE9 OR EDGE11, 0, 0, 0],
    [EDGE1 OR EDGE3 OR EDGE4 OR EDGE6 OR EDGE9 OR EDGE11, 0, 0, 0],
    [EDGE0 OR EDGE1 OR EDGE4 OR EDGE6 OR EDGE8 OR EDGE9 OR EDGE11, 0, 0, 0],
    [EDGE0 OR EDGE3 OR EDGE4 OR EDGE6 OR EDGE11, 0, 0, 0],
    [EDGE4 OR EDGE6 OR EDGE8 OR EDGE11, 0, 0, 0],
    [EDGE1 OR EDGE3 OR EDGE6 OR EDGE7 OR EDGE8 OR EDGE9 OR EDGE11, 0, 0, 0],
    [EDGE0 OR EDGE1 OR EDGE9, EDGE6 OR EDGE7 OR EDGE11, 0, 0],
    [EDGE0 OR EDGE3 OR EDGE6 OR EDGE7 OR EDGE8 OR EDGE11, 0, 0, 0],
    [EDGE6 OR EDGE7 OR EDGE11, 0, 0, 0],
    [EDGE5 OR EDGE7 OR EDGE10 OR EDGE11, 0, 0, 0],
    [EDGE0 OR EDGE3 OR EDGE8, EDGE5 OR EDGE7 OR EDGE10 OR EDGE11, 0, 0],
    [EDGE0 OR EDGE1 OR EDGE9, EDGE5 OR EDGE7 OR EDGE10 OR EDGE11, 0, 0],
    [EDGE1 OR EDGE3 OR EDGE8 OR EDGE9, EDGE5 OR EDGE7 OR EDGE10 OR EDGE11, 0, 0],
    [EDGE4 OR EDGE5 OR EDGE8 OR EDGE10 OR EDGE11, 0, 0, 0],
    [EDGE0 OR EDGE3 OR EDGE4 OR EDGE5 OR EDGE10 OR EDGE11, 0, 0, 0],
    [EDGE0 OR EDGE1 OR EDGE9, EDGE4 OR EDGE5 OR EDGE8 OR EDGE10 OR EDGE11, 0, 0],
    [EDGE1 OR EDGE3 OR EDGE4 OR EDGE5 OR EDGE9 OR EDGE10 OR EDGE11, 0, 0, 0],
    [EDGE4 OR EDGE7 OR EDGE9 OR EDGE10 OR EDGE11, 0, 0, 0],
    [EDGE0 OR EDGE3 OR EDGE8, EDGE4 OR EDGE7 OR EDGE9 OR EDGE10 OR EDGE11, 0, 0],
    [EDGE0 OR EDGE1 OR EDGE4 OR EDGE7 OR EDGE10 OR EDGE11, 0, 0, 0],
    [EDGE1 OR EDGE3 OR EDGE4 OR EDGE7 OR EDGE8 OR EDGE10 OR EDGE11, 0, 0, 0],
    [EDGE8 OR EDGE9 OR EDGE10 OR EDGE11, 0, 0, 0],
    [EDGE0 OR EDGE3 OR EDGE9 OR EDGE10 OR EDGE11, 0, 0, 0],
    [EDGE0 OR EDGE1 OR EDGE8 OR EDGE10 OR EDGE11, 0, 0, 0],
    [EDGE1 OR EDGE3 OR EDGE10 OR EDGE11, 0, 0, 0],
    [EDGE2 OR EDGE3 OR EDGE5 OR EDGE7 OR EDGE10, 0, 0, 0],
    [EDGE0 OR EDGE2 OR EDGE5 OR EDGE7 OR EDGE8 OR EDGE10, 0, 0, 0],
    [EDGE0 OR EDGE1 OR EDGE9, EDGE2 OR EDGE3 OR EDGE5 OR EDGE7 OR EDGE10, 0, 0],
    [EDGE1 OR EDGE2 OR EDGE5 OR EDGE7 OR EDGE8 OR EDGE9 OR EDGE10, 0, 0, 0],
    [EDGE2 OR EDGE3 OR EDGE4 OR EDGE5 OR EDGE8 OR EDGE10, 0, 0, 0],
    [EDGE0 OR EDGE2 OR EDGE4 OR EDGE5 OR EDGE10, 0, 0, 0],
    [EDGE0 OR EDGE1 OR EDGE9, EDGE2 OR EDGE3 OR EDGE4 OR EDGE5 OR EDGE8 OR EDGE10, 0, 0],
    [EDGE1 OR EDGE2 OR EDGE4 OR EDGE5 OR EDGE9 OR EDGE10, 0, 0, 0],
    [EDGE2 OR EDGE3 OR EDGE4 OR EDGE7 OR EDGE9 OR EDGE10, 0, 0, 0],
    [EDGE0 OR EDGE2 OR EDGE4 OR EDGE7 OR EDGE8 OR EDGE9 OR EDGE10, 0, 0, 0],
    [EDGE0 OR EDGE1 OR EDGE2 OR EDGE3 OR EDGE4 OR EDGE7 OR EDGE10, 0, 0, 0],
    [EDGE4 OR EDGE7 OR EDGE8, EDGE1 OR EDGE2 OR EDGE10, 0, 0],
    [EDGE2 OR EDGE3 OR EDGE8 OR EDGE9 OR EDGE10, 0, 0, 0],
    [EDGE0 OR EDGE2 OR EDGE9 OR EDGE10, 0, 0, 0],
    [EDGE0 OR EDGE1 OR EDGE2 OR EDGE3 OR EDGE8 OR EDGE10, 0, 0, 0],
    [EDGE1 OR EDGE2 OR EDGE10, 0, 0, 0],
    [EDGE1 OR EDGE2 OR EDGE5 OR EDGE7 OR EDGE11, 0, 0, 0],
    [EDGE0 OR EDGE3 OR EDGE8, EDGE1 OR EDGE2 OR EDGE5 OR EDGE7 OR EDGE11, 0, 0],
    [EDGE0 OR EDGE2 OR EDGE5 OR EDGE7 OR EDGE9 OR EDGE11, 0, 0, 0],
    [EDGE2 OR EDGE3 OR EDGE5 OR EDGE7 OR EDGE8 OR EDGE9 OR EDGE11, 0, 0, 0],
    [EDGE1 OR EDGE2 OR EDGE4 OR EDGE5 OR EDGE8 OR EDGE11, 0, 0, 0],
    [EDGE0 OR EDGE1 OR EDGE2 OR EDGE3 OR EDGE4 OR EDGE5 OR EDGE11, 0, 0, 0],
    [EDGE0 OR EDGE2 OR EDGE4 OR EDGE5 OR EDGE8 OR EDGE9 OR EDGE11, 0, 0, 0],
    [EDGE4 OR EDGE5 OR EDGE9, EDGE2 OR EDGE3 OR EDGE11, 0, 0],
    [EDGE1 OR EDGE2 OR EDGE4 OR EDGE7 OR EDGE9 OR EDGE11, 0, 0, 0],
    [EDGE0 OR EDGE3 OR EDGE8, EDGE1 OR EDGE2 OR EDGE4 OR EDGE7 OR EDGE9 OR EDGE11, 0, 0],
    [EDGE0 OR EDGE2 OR EDGE4 OR EDGE7 OR EDGE11, 0, 0, 0],
    [EDGE2 OR EDGE3 OR EDGE4 OR EDGE7 OR EDGE8 OR EDGE11, 0, 0, 0],
    [EDGE1 OR EDGE2 OR EDGE8 OR EDGE9 OR EDGE11, 0, 0, 0],
    [EDGE0 OR EDGE1 OR EDGE2 OR EDGE3 OR EDGE9 OR EDGE11, 0, 0, 0],
    [EDGE0 OR EDGE2 OR EDGE8 OR EDGE11, 0, 0, 0],
    [EDGE2 OR EDGE3 OR EDGE11, 0, 0, 0],
    [EDGE1 OR EDGE3 OR EDGE5 OR EDGE7, 0, 0, 0],
    [EDGE0 OR EDGE1 OR EDGE5 OR EDGE7 OR EDGE8, 0, 0, 0],
    [EDGE0 OR EDGE3 OR EDGE5 OR EDGE7 OR EDGE9, 0, 0, 0],
    [EDGE5 OR EDGE7 OR EDGE8 OR EDGE9, 0, 0, 0],
    [EDGE1 OR EDGE3 OR EDGE4 OR EDGE5 OR EDGE8, 0, 0, 0],
    [EDGE0 OR EDGE1 OR EDGE4 OR EDGE5, 0, 0, 0],
    [EDGE0 OR EDGE3 OR EDGE4 OR EDGE5 OR EDGE8 OR EDGE9, 0, 0, 0],
    [EDGE4 OR EDGE5 OR EDGE9, 0, 0, 0],
    [EDGE1 OR EDGE3 OR EDGE4 OR EDGE7 OR EDGE9, 0, 0, 0],
    [EDGE0 OR EDGE1 OR EDGE4 OR EDGE7 OR EDGE8 OR EDGE9, 0, 0, 0],
    [EDGE0 OR EDGE3 OR EDGE4 OR EDGE7, 0, 0, 0],
    [EDGE4 OR EDGE7 OR EDGE8, 0, 0, 0],
    [EDGE1 OR EDGE3 OR EDGE8 OR EDGE9, 0, 0, 0],
    [EDGE0 OR EDGE1 OR EDGE9, 0, 0, 0],
    [EDGE0 OR EDGE3 OR EDGE8, 0, 0, 0],
    [0, 0, 0, 0]
  ]"

text \<open>The table \<open>problematicConfigs[256]\<close>; \<open>255\<close> marks a configuration that is not
  ambiguous.\<close>

definition problematicConfigs :: "nat list" where
  "problematicConfigs = [
    255,255,255,255,255,255,255,255,255,255,255,255,255,255,255,255,
    255,255,255,255,255,255,255,255,255,255,255,255,255,255,255,255,
    255,255,255,255,255,255,255,255,255,255,255,255,255,255,255,255,
    255,255,255,255,255,255,255,255,255,255,255,255,255,1,0,255,
    255,255,255,255,255,255,255,255,255,255,255,255,255,255,255,255,
    255,255,255,255,255,255,255,255,255,255,255,3,255,255,2,255,
    255,255,255,255,255,255,255,5,255,255,255,255,255,255,5,5,
    255,255,255,255,255,255,4,255,255,255,3,3,1,1,255,255,
    255,255,255,255,255,255,255,255,255,255,255,255,255,255,255,255,
    255,255,255,255,255,255,255,255,255,255,255,5,255,5,255,5,
    255,255,255,255,255,255,255,3,255,255,255,255,255,2,255,255,
    255,255,255,255,255,3,255,3,255,4,255,255,0,255,0,255,
    255,255,255,255,255,255,255,1,255,255,255,0,255,255,255,255,
    255,255,255,1,255,255,255,1,255,4,2,255,255,255,2,255,
    255,255,255,0,255,2,4,255,255,255,255,0,255,2,255,255,
    255,255,255,255,255,255,4,255,255,4,255,255,255,255,255,255
  ]"

section \<open>The operations of \<open>Mesher\<close>\<close>

subsection \<open>Grid addressing and sample reads\<close>

text \<open>The two overloads of \<open>gA\<close> (by coordinates, and by a cell) and the read
  \<open>volume[i]\<close>.\<close>

definition gA :: "'a Mesher \<Rightarrow> int \<Rightarrow> int \<Rightarrow> int \<Rightarrow> int" where
  "gA m x y z = (case dims m of (d0, d1, d2) \<Rightarrow> x + d0 * (y + d1 * z))"

definition gA3 :: "'a Mesher \<Rightarrow> int3 \<Rightarrow> int" where
  "gA3 m cell = (case cell of (c0, c1, c2) \<Rightarrow> gA m c0 c1 c2)"

definition volumeAt :: "'a Mesher \<Rightarrow> int \<Rightarrow> 'a" where
  "volumeAt m i = volume m ! nat i"

subsection \<open>\<open>GetStatus\<close>\<close>

definition GetStatus ::
  "'a::linordered_field Mesher \<Rightarrow> 'a \<Rightarrow> int \<Rightarrow> int \<Rightarrow> int \<Rightarrow> int \<Rightarrow> int \<Rightarrow> int \<Rightarrow> bool \<times> bool" where
  "GetStatus m isoV x y z xOffset yOffset zOffset =
     (let entering = (volumeAt m (gA m x y z) \<ge> isoV
                      \<and> volumeAt m (gA m (x + xOffset) (y + yOffset) (z + zOffset)) < isoV);
          exiting = (volumeAt m (gA m x y z) < isoV
                     \<and> volumeAt m (gA m (x + xOffset) (y + yOffset) (z + zOffset)) \<ge> isoV)
      in (entering, exiting))"

subsection \<open>\<open>GetCellCode\<close>\<close>

text \<open>The statement \<open>if (b) code |= k;\<close>.\<close>

definition orIf :: "bool \<Rightarrow> int \<Rightarrow> int \<Rightarrow> int" where
  "orIf b k code = (if b then code OR k else code)"

definition GetCellCode :: "'a::linordered_field Mesher \<Rightarrow> int3 \<Rightarrow> 'a \<Rightarrow> int" where
  "GetCellCode m cell isoV = (case cell of (c0, c1, c2) \<Rightarrow>
     (let code = (0::int);
          code = orIf (volumeAt m (gA m c0 c1 c2) \<ge> isoV) 1 code;
          code = orIf (volumeAt m (gA m (c0 + 1) c1 c2) \<ge> isoV) 2 code;
          code = orIf (volumeAt m (gA m c0 (c1 + 1) c2) \<ge> isoV) 4 code;
          code = orIf (volumeAt m (gA m (c0 + 1) (c1 + 1) c2) \<ge> isoV) 8 code;
          code = orIf (volumeAt m (gA m c0 c1 (c2 + 1)) \<ge> isoV) 16 code;
          code = orIf (volumeAt m (gA m (c0 + 1) c1 (c2 + 1)) \<ge> isoV) 32 code;
          code = orIf (volumeAt m (gA m c0 (c1 + 1) (c2 + 1)) \<ge> isoV) 64 code;
          code = orIf (volumeAt m (gA m (c0 + 1) (c1 + 1) (c2 + 1)) \<ge> isoV) 128 code
      in code))"

subsection \<open>\<open>GetDualPointCode\<close>\<close>

text \<open>
  \<open>GetDualPointCode\<close> has two parts. The first computes the cube code that is looked up:
  the code of \<open>GetCellCode\<close>, inverted by the manifold rule where it applies. It is
  \<open>ManifoldCubeCode\<close> here (in the source it is the local variable \<open>cubeCode\<close> when the
  final loop starts). The second part is the loop over the four slots of the table row,
  \<open>scanDualPoints\<close>.
\<close>

definition ManifoldCubeCode :: "'a::linordered_field Mesher \<Rightarrow> int3 \<Rightarrow> 'a \<Rightarrow> int" where
  "ManifoldCubeCode m cell isoV =
     (let cubeCode = GetCellCode m cell isoV in
      if generateManifold m then
        (let direction = problematicConfigs ! nat (cubeCode mod 256) in
         if direction \<noteq> 255 then
           (let component = drop_bit 1 direction;
                delta = (if direction AND 1 = 1 then 1 else - 1 :: int);
                neighborCoords = int3_add cell component delta in
            if int3_get neighborCoords component \<ge> 0
               \<and> int3_get neighborCoords component < int3_get (dims m) component - 1 then
              (let neighborCubeCode = GetCellCode m neighborCoords isoV in
               if problematicConfigs ! nat (neighborCubeCode mod 256) \<noteq> 255
               then cubeCode XOR 255 else cubeCode)
            else cubeCode)
         else cubeCode)
      else cubeCode)"

fun scanDualPoints :: "int \<Rightarrow> int \<Rightarrow> nat list \<Rightarrow> int" where
  "scanDualPoints cubeCode edge [] = 0"
| "scanDualPoints cubeCode edge (i # rest) =
     (if dualPointsList ! nat cubeCode ! i AND edge \<noteq> 0
      then dualPointsList ! nat cubeCode ! i
      else scanDualPoints cubeCode edge rest)"

definition GetDualPointCode :: "'a::linordered_field Mesher \<Rightarrow> int3 \<Rightarrow> 'a \<Rightarrow> int \<Rightarrow> int" where
  "GetDualPointCode m cell isoV edge =
     scanDualPoints (ManifoldCubeCode m cell isoV) edge [0, 1, 2, 3]"

subsection \<open>\<open>CalculateDualPoint\<close>\<close>

text \<open>The interpolation quotient \<open>(iso - volume[a]) / (volume[b] - volume[a])\<close> that each
  of the twelve blocks of the source writes out.\<close>

definition crossing :: "'a::linordered_field Mesher \<Rightarrow> 'a \<Rightarrow> int \<Rightarrow> int \<Rightarrow> 'a" where
  "crossing m isoV a b = (isoV - volumeAt m a) / (volumeAt m b - volumeAt m a)"

text \<open>One block \<open>if (pointCode & EDGEk) { p.position[..] += ..; points++; }\<close>: the
  accumulator is the running sum \<open>p\<close> and the counter \<open>points\<close>.\<close>

definition edgeBlock ::
  "int \<Rightarrow> int \<Rightarrow> 'a::linordered_field float3 \<Rightarrow> 'a float3 \<times> nat \<Rightarrow> 'a float3 \<times> nat" where
  "edgeBlock pcode edge d acc =
     (case acc of ((p0, p1, p2), points) \<Rightarrow>
        if pcode AND edge \<noteq> 0
        then (case d of (d0, d1, d2) \<Rightarrow> ((p0 + d0, p1 + d1, p2 + d2), points + 1))
        else acc)"

text \<open>The sum of the flagged edges' crossing points and their number, before the division.\<close>

definition sumEdges ::
  "'a::linordered_field Mesher \<Rightarrow> int3 \<Rightarrow> 'a \<Rightarrow> int \<Rightarrow> 'a float3 \<times> nat" where
  "sumEdges m cell isoV pcode = (case cell of (c0, c1, c2) \<Rightarrow>
     (let acc = ((0, 0, 0), 0);
          acc = edgeBlock pcode EDGE0
                  (crossing m isoV (gA m c0 c1 c2) (gA m (c0 + 1) c1 c2), 0, 0) acc;
          acc = edgeBlock pcode EDGE1
                  (1, 0, crossing m isoV (gA m (c0 + 1) c1 c2) (gA m (c0 + 1) c1 (c2 + 1))) acc;
          acc = edgeBlock pcode EDGE2
                  (crossing m isoV (gA m c0 c1 (c2 + 1)) (gA m (c0 + 1) c1 (c2 + 1)), 0, 1) acc;
          acc = edgeBlock pcode EDGE3
                  (0, 0, crossing m isoV (gA m c0 c1 c2) (gA m c0 c1 (c2 + 1))) acc;
          acc = edgeBlock pcode EDGE4
                  (crossing m isoV (gA m c0 (c1 + 1) c2) (gA m (c0 + 1) (c1 + 1) c2), 1, 0) acc;
          acc = edgeBlock pcode EDGE5
                  (1, 1, crossing m isoV (gA m (c0 + 1) (c1 + 1) c2)
                                        (gA m (c0 + 1) (c1 + 1) (c2 + 1))) acc;
          acc = edgeBlock pcode EDGE6
                  (crossing m isoV (gA m c0 (c1 + 1) (c2 + 1))
                                  (gA m (c0 + 1) (c1 + 1) (c2 + 1)), 1, 1) acc;
          acc = edgeBlock pcode EDGE7
                  (0, 1, crossing m isoV (gA m c0 (c1 + 1) c2) (gA m c0 (c1 + 1) (c2 + 1))) acc;
          acc = edgeBlock pcode EDGE8
                  (0, crossing m isoV (gA m c0 c1 c2) (gA m c0 (c1 + 1) c2), 0) acc;
          acc = edgeBlock pcode EDGE9
                  (1, crossing m isoV (gA m (c0 + 1) c1 c2) (gA m (c0 + 1) (c1 + 1) c2), 0) acc;
          acc = edgeBlock pcode EDGE10
                  (1, crossing m isoV (gA m (c0 + 1) c1 (c2 + 1))
                                     (gA m (c0 + 1) (c1 + 1) (c2 + 1)), 1) acc;
          acc = edgeBlock pcode EDGE11
                  (0, crossing m isoV (gA m c0 c1 (c2 + 1)) (gA m c0 (c1 + 1) (c2 + 1)), 1) acc
      in acc))"

text \<open>The division by the number of accumulated points and the shift by the cell
  origin.\<close>

definition CalculateDualPoint ::
  "'a::linordered_field Mesher \<Rightarrow> int3 \<Rightarrow> 'a \<Rightarrow> int \<Rightarrow> 'a Vertex" where
  "CalculateDualPoint m cell isoV pcode =
     (case sumEdges m cell isoV pcode of ((p0, p1, p2), points) \<Rightarrow>
        (let invPoints = 1 / of_nat points in
         case cell of (c0, c1, c2) \<Rightarrow>
           \<lparr>position = (of_int c0 + p0 * invPoints,
                        of_int c1 + p1 * invPoints,
                        of_int c2 + p2 * invPoints)\<rparr>))"

subsection \<open>\<open>GetSharedDualPointIndex\<close>\<close>

text \<open>The method changes the cache \<open>pointToIndex\<close> of the mesher and the vertex vector it
  is given; the model returns the index, the mesher and the vertex vector.\<close>

definition GetSharedDualPointIndex ::
  "'a::linordered_field Mesher \<Rightarrow> int3 \<Rightarrow> 'a \<Rightarrow> int \<Rightarrow> 'a Vertex list
     \<Rightarrow> 32 word \<times> 'a Mesher \<times> 'a Vertex list" where
  "GetSharedDualPointIndex m cell isoV edge verts =
     (let key = DualPointKey (gA3 m cell) (GetDualPointCode m cell isoV edge) in
      case pointToIndex m key of
        Some i \<Rightarrow> (i, m, verts)
      | None \<Rightarrow>
          (let newVertexId = (word_of_nat (length verts) :: 32 word);
               verts' = verts @ [CalculateDualPoint m cell isoV (pointCode key)]
           in (newVertexId, m\<lparr>pointToIndex := (pointToIndex m)(key \<mapsto> newVertexId)\<rparr>, verts')))"

subsection \<open>\<open>ConstructFace\<close>\<close>

text \<open>The index sequence appended for one face, from the four indices, the flag \<open>cond\<close>
  and the topology: the four branches at the end of \<open>ConstructFace\<close>.\<close>

definition faceIndices :: "Topology \<Rightarrow> bool \<Rightarrow> 32 word \<Rightarrow> 32 word \<Rightarrow> 32 word \<Rightarrow> 32 word \<Rightarrow> 32 word list" where
  "faceIndices topology cond i0 i1 i2 i3 =
     (if cond then
        (if topology = Quads then [i0, i1, i2, i3] else [i0, i1, i2, i2, i3, i0])
      else
        (if topology = Quads then [i0, i3, i2, i1] else [i2, i1, i0, i0, i3, i2]))"

text \<open>The four calls of \<open>GetSharedDualPointIndex\<close> at the start of \<open>ConstructFace\<close>, in
  the order of the source; each call sees the cache and the vertices left by the one
  before.\<close>

definition GetFaceIndices ::
  "'a::linordered_field Mesher \<Rightarrow> 'a \<Rightarrow> int3 \<times> int3 \<times> int3 \<times> int3 \<Rightarrow> int \<times> int \<times> int \<times> int
     \<Rightarrow> 'a Vertex list \<Rightarrow> (32 word \<times> 32 word \<times> 32 word \<times> 32 word) \<times> 'a Mesher \<times> 'a Vertex list" where
  "GetFaceIndices m isoV cells edges verts =
     (case cells of (cell0, cell1, cell2, cell3) \<Rightarrow>
      case edges of (edge0, edge1, edge2, edge3) \<Rightarrow>
      case GetSharedDualPointIndex m cell0 isoV edge0 verts of (i0, m, vs) \<Rightarrow>
      case GetSharedDualPointIndex m cell1 isoV edge1 vs of (i1, m, vs) \<Rightarrow>
      case GetSharedDualPointIndex m cell2 isoV edge2 vs of (i2, m, vs) \<Rightarrow>
      case GetSharedDualPointIndex m cell3 isoV edge3 vs of (i3, m, vs) \<Rightarrow>
        ((i0, i1, i2, i3), m, vs))"

definition ConstructFace ::
  "'a::linordered_field \<Rightarrow> Topology \<Rightarrow> bool \<Rightarrow> int3 \<times> int3 \<times> int3 \<times> int3
     \<Rightarrow> int \<times> int \<times> int \<times> int \<Rightarrow> 'a Mesher \<times> 'a Mesh \<Rightarrow> 'a Mesher \<times> 'a Mesh" where
  "ConstructFace isoV topology cond cells edges st =
     (case st of (m, mesh) \<Rightarrow>
      case GetFaceIndices m isoV cells edges (vertices mesh) of ((i0, i1, i2, i3), m, vs) \<Rightarrow>
        (m, mesh\<lparr>vertices := vs,
                 indices := indices mesh @ faceIndices topology cond i0 i1 i2 i3\<rparr>))"

subsection \<open>\<open>BuildInternal\<close> and \<open>Build\<close>\<close>

text \<open>The three blocks of the loop body, one per axis, at the cell \<open>(x, y, z)\<close>.\<close>

definition xEdge ::
  "'a::linordered_field \<Rightarrow> Topology \<Rightarrow> int \<Rightarrow> int \<Rightarrow> int \<Rightarrow> 'a Mesher \<times> 'a Mesh \<Rightarrow> 'a Mesher \<times> 'a Mesh" where
  "xEdge isoV topology x y z st =
     (if z > 0 \<and> y > 0 then
        (case GetStatus (fst st) isoV x y z 1 0 0 of (entering, exiting) \<Rightarrow>
           if entering \<or> exiting then
             ConstructFace isoV topology entering
               ((x, y, z), (x, y, z - 1), (x, y - 1, z - 1), (x, y - 1, z))
               (EDGE0, EDGE2, EDGE6, EDGE4) st
           else st)
      else st)"

definition yEdge ::
  "'a::linordered_field \<Rightarrow> Topology \<Rightarrow> int \<Rightarrow> int \<Rightarrow> int \<Rightarrow> 'a Mesher \<times> 'a Mesh \<Rightarrow> 'a Mesher \<times> 'a Mesh" where
  "yEdge isoV topology x y z st =
     (if z > 0 \<and> x > 0 then
        (case GetStatus (fst st) isoV x y z 0 1 0 of (entering, exiting) \<Rightarrow>
           if entering \<or> exiting then
             ConstructFace isoV topology exiting
               ((x, y, z), (x, y, z - 1), (x - 1, y, z - 1), (x - 1, y, z))
               (EDGE8, EDGE11, EDGE10, EDGE9) st
           else st)
      else st)"

definition zEdge ::
  "'a::linordered_field \<Rightarrow> Topology \<Rightarrow> int \<Rightarrow> int \<Rightarrow> int \<Rightarrow> 'a Mesher \<times> 'a Mesh \<Rightarrow> 'a Mesher \<times> 'a Mesh" where
  "zEdge isoV topology x y z st =
     (if x > 0 \<and> y > 0 then
        (case GetStatus (fst st) isoV x y z 0 0 1 of (entering, exiting) \<Rightarrow>
           if entering \<or> exiting then
             ConstructFace isoV topology exiting
               ((x, y, z), (x - 1, y, z), (x - 1, y - 1, z), (x, y - 1, z))
               (EDGE3, EDGE1, EDGE5, EDGE7) st
           else st)
      else st)"

definition cellStep ::
  "'a::linordered_field \<Rightarrow> Topology \<Rightarrow> int \<Rightarrow> int \<Rightarrow> int \<Rightarrow> 'a Mesher \<times> 'a Mesh \<Rightarrow> 'a Mesher \<times> 'a Mesh" where
  "cellStep isoV topology x y z st =
     zEdge isoV topology x y z (yEdge isoV topology x y z (xEdge isoV topology x y z st))"

text \<open>The three nested \<open>for\<close> loops, \<open>z\<close> outermost; \<open>[0..r - 1]\<close> is the list of the
  integers \<open>0 \<le> i < r\<close>, empty when \<open>r \<le> 0\<close>.\<close>

definition BuildInternal ::
  "'a::linordered_field Mesher \<Rightarrow> 'a \<Rightarrow> Topology \<Rightarrow> 'a Mesh \<Rightarrow> 'a Mesher \<times> 'a Mesh" where
  "BuildInternal m isoV topology mesh =
     (case dims m of (d0, d1, d2) \<Rightarrow>
      (let reducedX = d0 - 2;
           reducedY = d1 - 2;
           reducedZ = d2 - 2;
           m = m\<lparr>pointToIndex := Map.empty\<rparr>
       in foldl (\<lambda>st z.
            foldl (\<lambda>st y.
              foldl (\<lambda>st x. cellStep isoV topology x y z st) st [0..reducedX - 1])
              st [0..reducedY - 1])
            (m, mesh) [0..reducedZ - 1]))"

text \<open>\<open>Build\<close>: a failed \<open>assert\<close> aborts the program, which is \<open>None\<close>. The object's
  fields are assigned before \<open>BuildInternal\<close> runs; the mesh starts empty.\<close>

definition Build ::
  "'a::linordered_field Mesher \<Rightarrow> 'a list \<Rightarrow> int3 \<Rightarrow> 'a \<Rightarrow> bool \<Rightarrow> Topology \<Rightarrow> 'a Mesh option" where
  "Build m data dimension isoV manifold topology =
     (case dimension of (d0, d1, d2) \<Rightarrow>
      if d0 < 0 \<or> d1 < 0 \<or> d2 < 0 then None
      else if data = [] then None
      else if \<not> (length data \<ge> nat (d0 * d1 * d2)) then None
      else
        (let m = m\<lparr>volume := data, dims := dimension, generateManifold := manifold\<rparr>;
             mesh = \<lparr>vertices = [], indices = []\<rparr>
         in Some (snd (BuildInternal m isoV topology mesh))))"

subsection \<open>The cells of the sweep\<close>

text \<open>The coordinates \<open>(x, y, z)\<close> that the loops of \<open>BuildInternal\<close> visit, in the order
  of the visit (\<open>x\<close> runs fastest); \<open>BuildInternal_sweep\<close> below shows that
  \<open>BuildInternal\<close> is the fold of \<open>cellStep\<close> over this list.\<close>

definition sweepCells :: "int3 \<Rightarrow> int3 list" where
  "sweepCells d = (case d of (d0, d1, d2) \<Rightarrow>
     concat (map (\<lambda>z. concat (map (\<lambda>y. map (\<lambda>x. (x, y, z)) [0..d0 - 2 - 1])
                                   [0..d1 - 2 - 1]))
                 [0..d2 - 2 - 1]))"

subsection \<open>The manifold rule in the words of the specification\<close>

text \<open>
  The specification describes the manifold resolver through the table: a code is
  ambiguous when its entry is not \<open>255\<close>; the entry then encodes an axis (bits 1 and 2)
  and a sign (bit 0); the neighbour is the cell offset by the sign along the axis; the
  valid cell range on an axis is \<open>0 \<dots> dims - 2\<close>. These definitions follow those
  words; \<open>ManifoldCubeCode\<close> above follows the source.
\<close>

definition ambiguous :: "int \<Rightarrow> bool" where
  "ambiguous code = (problematicConfigs ! nat code \<noteq> 255)"

definition ambiguousAxis :: "int \<Rightarrow> nat" where
  "ambiguousAxis code = problematicConfigs ! nat code div 2"

definition ambiguousSign :: "int \<Rightarrow> int" where
  "ambiguousSign code = (if odd (problematicConfigs ! nat code) then 1 else - 1)"

definition ambiguousNeighbor :: "int3 \<Rightarrow> int \<Rightarrow> int3" where
  "ambiguousNeighbor cell code = int3_add cell (ambiguousAxis code) (ambiguousSign code)"

definition validOnAxis :: "'a Mesher \<Rightarrow> int3 \<Rightarrow> nat \<Rightarrow> bool" where
  "validOnAxis m cell k = (0 \<le> int3_get cell k \<and> int3_get cell k \<le> int3_get (dims m) k - 2)"

subsection \<open>The region that claim C8 names\<close>

text \<open>The claim's region: every coordinate at least \<open>1\<close> and at most \<open>dims - 2\<close>.\<close>

definition insideBorder :: "int3 \<Rightarrow> int3 \<Rightarrow> bool" where
  "insideBorder d c = (case d of (d0, d1, d2) \<Rightarrow> case c of (x, y, z) \<Rightarrow>
     1 \<le> x \<and> x \<le> d0 - 2 \<and> 1 \<le> y \<and> y \<le> d1 - 2 \<and> 1 \<le> z \<and> z \<le> d2 - 2)"

subsection \<open>The number of flagged edges\<close>

text \<open>The number of set bits among the twelve edge bits of a point code;
  \<open>points_flaggedEdges\<close> below shows that it is the counter \<open>points\<close> by which
  \<open>CalculateDualPoint\<close> divides.\<close>

definition flaggedEdges :: "int \<Rightarrow> nat" where
  "flaggedEdges pcode = length (filter (bit pcode) [0, 1, 2, 3, 4, 5, 6, 7, 8, 9, 10, 11])"

subsection \<open>Concrete inputs\<close>

text \<open>A mesher before its first \<open>Build\<close>; \<open>Build\<close> overwrites every field before it
  reads one.\<close>

definition freshMesher :: "rat Mesher" where
  "freshMesher = \<lparr>dims = (0, 0, 0), volume = [], generateManifold = False,
                   pointToIndex = Map.empty\<rparr>"

text \<open>The mesher as \<open>Build\<close> sets it up for a buffer, dimensions and a manifold flag.\<close>

definition mesherFor :: "rat list \<Rightarrow> int3 \<Rightarrow> bool \<Rightarrow> rat Mesher" where
  "mesherFor data dimension manifold =
     freshMesher\<lparr>volume := data, dims := dimension, generateManifold := manifold\<rparr>"

definition emptyMesh :: "rat Mesh" where
  "emptyMesh = \<lparr>vertices = [], indices = []\<rparr>"

text \<open>A \<open>4\<times>3\<times>4\<close> volume whose only sample above \<open>1/2\<close> is the one at \<open>(1, 0, 1)\<close>
  (address \<open>1 + 4 * (0 + 3 * 1) = 13\<close>): the y edge from \<open>(1, 0, 1)\<close> leaves the inside.\<close>

definition yEdgeVolume :: "rat list" where
  "yEdgeVolume = map (\<lambda>i. if i = 13 then 1 else 0) [0..<48]"

text \<open>The mesher of that volume with the cache \<open>p\<close>.\<close>

definition yM :: "bool \<Rightarrow> (DualPointKey \<rightharpoonup> 32 word) \<Rightarrow> rat Mesher" where
  "yM manifold p = (mesherFor yEdgeVolume (4, 3, 4) manifold)\<lparr>pointToIndex := p\<rparr>"

text \<open>A \<open>4\<times>4\<times>4\<close> volume whose only sample above \<open>1/2\<close> is the one at \<open>(1, 1, 1)\<close>
  (address \<open>1 + 4 * (1 + 4 * 1) = 21\<close>): the three grid edges from \<open>(1, 1, 1)\<close> to
  \<open>(2, 1, 1)\<close>, \<open>(1, 2, 1)\<close> and \<open>(1, 1, 2)\<close> leave the inside.\<close>

definition oneInsideVolume :: "rat list" where
  "oneInsideVolume = map (\<lambda>i. if i = 21 then 1 else 0) [0..<64]"

text \<open>The mesher of that volume with the cache \<open>p\<close>.\<close>

definition oM :: "bool \<Rightarrow> (DualPointKey \<rightharpoonup> 32 word) \<Rightarrow> rat Mesher" where
  "oM manifold p = (mesherFor oneInsideVolume (4, 4, 4) manifold)\<lparr>pointToIndex := p\<rparr>"

text \<open>A \<open>3\<times>3\<times>3\<close> volume of ones whose corner sample at \<open>(0, 0, 0)\<close> is \<open>0\<close>.\<close>

definition cornerVolume :: "rat list" where
  "cornerVolume = map (\<lambda>i. if i = 0 then 0 else 1) [0..<27]"

text \<open>A \<open>4\<times>4\<times>4\<close> volume of zeros.\<close>

definition zeroVolume :: "rat list" where
  "zeroVolume = map (\<lambda>i. 0) [0..<64]"

text \<open>A \<open>3\<times>2\<times>2\<close> volume, two cells side by side along x. The samples below \<open>1/2\<close> are
  those at \<open>(1, 0, 0)\<close>, \<open>(0, 1, 1)\<close>, \<open>(1, 1, 1)\<close> and \<open>(2, 1, 1)\<close> (addresses 1, 9, 10,
  11). The cell \<open>(0, 0, 0)\<close> has the code 61, ambiguous towards \<open>+x\<close>; the cell
  \<open>(1, 0, 0)\<close> has the code 62, ambiguous towards \<open>-x\<close>.\<close>

definition ambiguousPairVolume :: "rat list" where
  "ambiguousPairVolume = map (\<lambda>i. if i = 1 \<or> 9 \<le> i then 0 else 1) [0..<12]"

definition aM :: "bool \<Rightarrow> rat Mesher" where
  "aM manifold = mesherFor ambiguousPairVolume (3, 2, 2) manifold"

subsection \<open>The faces that one cell appends\<close>

text \<open>An index sequence that is empty or the indices of exactly one face.\<close>

definition oneFaceOrNone :: "Topology \<Rightarrow> 32 word list \<Rightarrow> bool" where
  "oneFaceOrNone topology f =
     (f = [] \<or> (\<exists>cond i0 i1 i2 i3. f = faceIndices topology cond i0 i1 i2 i3))"

text \<open>The indices that the three axis blocks of one cell append, one sequence per grid
  edge of the cell.\<close>

definition cellFaces :: "32 word list \<times> 32 word list \<times> 32 word list \<Rightarrow> 32 word list" where
  "cellFaces t = (case t of (fx, fy, fz) \<Rightarrow> fx @ fy @ fz)"

definition cellFacesOk :: "Topology \<Rightarrow> 32 word list \<times> 32 word list \<times> 32 word list \<Rightarrow> bool" where
  "cellFacesOk topology t = (case t of (fx, fy, fz) \<Rightarrow>
     oneFaceOrNone topology fx \<and> oneFaceOrNone topology fy \<and> oneFaceOrNone topology fz)"

subsection \<open>Invariants of the sweep\<close>

text \<open>Every index recorded in the cache is below the number of vertices.\<close>

definition cacheBelow :: "'a Mesher \<Rightarrow> 'a Vertex list \<Rightarrow> bool" where
  "cacheBelow m vs = (\<forall>k i. pointToIndex m k = Some i \<longrightarrow> unat i < length vs)"

text \<open>The same for the cache and the index sequence of a state of the sweep.\<close>

definition indicesBelow :: "'a Mesher \<times> 'a Mesh \<Rightarrow> bool" where
  "indicesBelow st = (cacheBelow (fst st) (vertices (snd st))
      \<and> (\<forall>i\<in>set (indices (snd st)). unat i < length (vertices (snd st))))"

text \<open>Two states of the sweep, one of a quad run and one of a triangle run, that agree on
  the mesher and the vertices and hold the same number of faces.\<close>

definition sameFaces :: "'a Mesher \<times> 'a Mesh \<Rightarrow> 'a Mesher \<times> 'a Mesh \<Rightarrow> bool" where
  "sameFaces sq st = (fst sq = fst st \<and> vertices (snd sq) = vertices (snd st)
     \<and> (\<exists>n. length (indices (snd sq)) = 4 * n \<and> length (indices (snd st)) = 6 * n))"

text \<open>
  The origin of a vertex is the cell and the point code it was computed from. \<open>keyOf\<close> is
  the key of an origin, \<open>dualPointOf\<close> its vertex. \<open>cacheOrigins m0 isoV st os\<close> says that
  the state \<open>st\<close> of a sweep of the mesher \<open>m0\<close> is described by the origins \<open>os\<close>: the
  mesher differs from \<open>m0\<close> in the cache only, the \<open>j\<close>-th vertex is the dual point of
  the \<open>j\<close>-th origin, the keys of the origins are pairwise distinct, they are the keys
  of the cache, and the cache maps the \<open>j\<close>-th key to the index \<open>j\<close>.
\<close>

definition keyOf :: "'a Mesher \<Rightarrow> int3 \<times> int \<Rightarrow> DualPointKey" where
  "keyOf m orig = (case orig of (cell, pcode) \<Rightarrow> DualPointKey (gA3 m cell) pcode)"

definition dualPointOf :: "'a::linordered_field Mesher \<Rightarrow> 'a \<Rightarrow> int3 \<times> int \<Rightarrow> 'a Vertex" where
  "dualPointOf m isoV orig = (case orig of (cell, pcode) \<Rightarrow> CalculateDualPoint m cell isoV pcode)"

definition cacheOrigins ::
  "'a::linordered_field Mesher \<Rightarrow> 'a \<Rightarrow> 'a Mesher \<times> 'a Mesh \<Rightarrow> (int3 \<times> int) list \<Rightarrow> bool" where
  "cacheOrigins m0 isoV st os =
     (fst st = m0\<lparr>pointToIndex := pointToIndex (fst st)\<rparr>
      \<and> vertices (snd st) = map (dualPointOf m0 isoV) os
      \<and> distinct (map (keyOf m0) os)
      \<and> dom (pointToIndex (fst st)) = set (map (keyOf m0) os)
      \<and> (\<forall>j<length os. pointToIndex (fst st) (keyOf m0 (os ! j)) = Some (word_of_nat j)))"

section \<open>Basic facts\<close>

lemmas EDGE_defs = EDGE0_def EDGE1_def EDGE2_def EDGE3_def EDGE4_def EDGE5_def
  EDGE6_def EDGE7_def EDGE8_def EDGE9_def EDGE10_def EDGE11_def

lemma orIf_range:
  "0 \<le> c \<Longrightarrow> c < 256 \<Longrightarrow> 0 \<le> k \<Longrightarrow> k < 256 \<Longrightarrow> 0 \<le> orIf b k c \<and> orIf b k c < 256"
  using OR_upper [of c 8 k] by (simp add: orIf_def)

lemma GetCellCode_range: "0 \<le> GetCellCode m cell isoV \<and> GetCellCode m cell isoV < 256"
proof -
  obtain c0 c1 c2 where cell: "cell = (c0, c1, c2)" by (cases cell)
  show ?thesis
    unfolding GetCellCode_def cell prod.case Let_def
    by (intro orIf_range [THEN conjunct1] orIf_range [THEN conjunct2] conjI; simp)
qed

lemma xor_255_complement:
  assumes "0 \<le> c" "c < 256"
  shows "c XOR 255 = 255 - (c::int)"
proof -
  have tb: "take_bit 8 c = c"
    using assms by (simp add: take_bit_int_eq_self)
  have hi: "\<not> bit c n" if "8 \<le> n" for n
  proof -
    have "bit c n = bit (take_bit 8 c) n" by (simp add: tb)
    also have "\<dots> = False" using that by (simp add: bit_take_bit_iff)
    finally show ?thesis by simp
  qed
  have "c XOR mask 8 = take_bit 8 (NOT c)"
  proof (rule bit_eqI)
    fix n
    show "bit (c XOR mask 8) n = bit (take_bit 8 (NOT c)) n"
      using hi [of n] by (auto simp: bit_xor_iff bit_mask_iff bit_take_bit_iff bit_not_iff)
  qed
  also have "\<dots> = mask 8 - take_bit 8 c"
    by (rule take_bit_not_eq_mask_diff)
  finally show ?thesis
    by (simp add: tb mask_eq_exp_minus_1)
qed

lemma GetSharedDualPointIndex_input:
  "GetSharedDualPointIndex m cell isoV edge vs = (i, m', vs') \<Longrightarrow>
     dims m' = dims m \<and> volume m' = volume m \<and> generateManifold m' = generateManifold m"
  by (auto simp: GetSharedDualPointIndex_def Let_def split: option.splits)

lemma ConstructFace_indices:
  "\<exists>i0 i1 i2 i3. indices (snd (ConstructFace isoV topology cond cells edges st)) =
      indices (snd st) @ faceIndices topology cond i0 i1 i2 i3"
  by (auto simp: ConstructFace_def split: prod.splits)

lemma length_faceIndices:
  "length (faceIndices topology cond i0 i1 i2 i3) = (if topology = Quads then 4 else 6)"
  by (simp add: faceIndices_def)

lemma indices_differ: "indices (snd a) \<noteq> indices (snd b) \<Longrightarrow> a \<noteq> b"
  by auto

section \<open>Facts about the tables\<close>

lemma snd_edgeBlock:
  "snd (edgeBlock pcode e d acc) = snd acc + (if pcode AND e \<noteq> 0 then 1 else 0)"
  by (simp add: edgeBlock_def split: prod.split)

lemma and_EDGE_bit:
  "(pcode AND EDGE0 \<noteq> 0) = bit pcode 0" "(pcode AND EDGE1 \<noteq> 0) = bit pcode 1"
  "(pcode AND EDGE2 \<noteq> 0) = bit pcode 2" "(pcode AND EDGE3 \<noteq> 0) = bit pcode 3"
  "(pcode AND EDGE4 \<noteq> 0) = bit pcode 4" "(pcode AND EDGE5 \<noteq> 0) = bit pcode 5"
  "(pcode AND EDGE6 \<noteq> 0) = bit pcode 6" "(pcode AND EDGE7 \<noteq> 0) = bit pcode 7"
  "(pcode AND EDGE8 \<noteq> 0) = bit pcode 8" "(pcode AND EDGE9 \<noteq> 0) = bit pcode 9"
  "(pcode AND EDGE10 \<noteq> 0) = bit pcode 10" "(pcode AND EDGE11 \<noteq> 0) = bit pcode 11"
  unfolding EDGE_defs
  by (simp_all only: bit_iff_and_push_bit_not_eq_0 [symmetric]) (simp add: bit_0 and_one_eq mod2_eq_if)

lemma points_flaggedEdges: "snd (sumEdges m cell isoV pcode) = flaggedEdges pcode"
proof -
  obtain c0 c1 c2 where cell: "cell = (c0, c1, c2)" by (cases cell)
  show ?thesis
    unfolding sumEdges_def cell prod.case Let_def snd_edgeBlock and_EDGE_bit flaggedEdges_def
    by simp
qed

lemma dualPointsList_shape:
  "length dualPointsList = 256 \<and> list_all (\<lambda>row. length row = 4) dualPointsList"
  by code_simp

lemma dualPointsList_entries:
  "list_all (list_all (\<lambda>v. 0 \<le> v \<and> v < 4096
       \<and> (v = 0 \<or> (3 \<le> flaggedEdges v \<and> flaggedEdges v \<le> 7)))) dualPointsList"
  by code_simp

lemma dualPointsList_entry:
  assumes "c < 256" "i < 4"
  shows "0 \<le> dualPointsList ! c ! i \<and> dualPointsList ! c ! i < 4096
         \<and> (dualPointsList ! c ! i = 0
         \<or> (3 \<le> flaggedEdges (dualPointsList ! c ! i) \<and> flaggedEdges (dualPointsList ! c ! i) \<le> 7))"
proof -
  have c: "c < length dualPointsList" using assms dualPointsList_shape by simp
  then have "length (dualPointsList ! c) = 4"
    using dualPointsList_shape by (simp add: list_all_length)
  then have i: "i < length (dualPointsList ! c)" using assms by simp
  from dualPointsList_entries c i show ?thesis
    by (simp add: list_all_length)
qed

lemma ManifoldCubeCode_cases:
  "ManifoldCubeCode m cell isoV = GetCellCode m cell isoV
   \<or> ManifoldCubeCode m cell isoV = GetCellCode m cell isoV XOR 255"
  by (simp add: ManifoldCubeCode_def Let_def)

lemma ManifoldCubeCode_range:
  "0 \<le> ManifoldCubeCode m cell isoV \<and> ManifoldCubeCode m cell isoV < 256"
  using ManifoldCubeCode_cases [of m cell isoV] GetCellCode_range [of m cell isoV]
    xor_255_complement [of "GetCellCode m cell isoV"]
  by auto

lemma scanDualPoints_result:
  "set slots \<subseteq> {0..<4} \<Longrightarrow>
     scanDualPoints c e slots = 0
     \<or> (\<exists>i<4. scanDualPoints c e slots = dualPointsList ! nat c ! i
               \<and> dualPointsList ! nat c ! i AND e \<noteq> 0)"
  by (induction slots) auto

lemma GetDualPointCode_entry:
  "GetDualPointCode m cell isoV edge = 0
   \<or> (\<exists>c<256. \<exists>i<4. GetDualPointCode m cell isoV edge = dualPointsList ! c ! i
         \<and> dualPointsList ! c ! i AND edge \<noteq> 0)"
proof -
  let ?c = "ManifoldCubeCode m cell isoV"
  have c: "nat ?c < 256" using ManifoldCubeCode_range [of m cell isoV] by linarith
  have "set [0, 1, 2, 3::nat] \<subseteq> {0..<4}" by simp
  from scanDualPoints_result [OF this, of ?c edge] c show ?thesis
    unfolding GetDualPointCode_def by blast
qed

section \<open>Evaluation of a volume with one face\<close>

lemma dualPointsList_rows:
  "dualPointsList ! Suc 0 = [EDGE0 OR EDGE3 OR EDGE8, 0, 0, 0]"
  "dualPointsList ! 2 = [EDGE0 OR EDGE1 OR EDGE9, 0, 0, 0]"
  "dualPointsList ! 16 = [EDGE2 OR EDGE3 OR EDGE11, 0, 0, 0]"
  "dualPointsList ! 32 = [EDGE1 OR EDGE2 OR EDGE10, 0, 0, 0]"
  "dualPointsList ! 7 = [EDGE1 OR EDGE3 OR EDGE4 OR EDGE7 OR EDGE9, 0, 0, 0]"
  by (simp_all add: dualPointsList_def)

lemma not_ambiguous_rows:
  "\<not> ambiguous 1" "\<not> ambiguous 2" "\<not> ambiguous 16" "\<not> ambiguous 32"
  by (simp_all add: ambiguous_def problematicConfigs_def)

lemma ManifoldCubeCode_not_ambiguous:
  "\<not> ambiguous (GetCellCode m cell isoV) \<Longrightarrow> ManifoldCubeCode m cell isoV = GetCellCode m cell isoV"
  using GetCellCode_range [of m cell isoV]
  by (simp add: ManifoldCubeCode_def Let_def ambiguous_def)

lemma upto_0_1: "[0..1] = [0, 1]" "[0..0] = [0]" "[0..-1] = []"
  by (simp_all add: upto.simps)

lemma yM_fields:
  "dims (yM mf p) = (4, 3, 4)" "volume (yM mf p) = yEdgeVolume"
  "generateManifold (yM mf p) = mf" "pointToIndex (yM mf p) = p"
  "(yM mf p)\<lparr>pointToIndex := q\<rparr> = yM mf q"
  by (simp_all add: yM_def mesherFor_def freshMesher_def)

lemma yM_sample: "0 \<le> i \<Longrightarrow> i < 48 \<Longrightarrow> volumeAt (yM mf p) i = (if i = 13 then 1 else 0)"
  by (auto simp: volumeAt_def yM_fields yEdgeVolume_def)

lemma yM_gA: "gA (yM mf p) x y z = x + 4 * (y + 3 * z)"
  by (simp add: gA_def yM_fields)

lemma yM_codes:
  "GetCellCode (yM mf p) (1, 0, 1) (1/2) = 1"
  "GetCellCode (yM mf p) (1, 0, 0) (1/2) = 16"
  "GetCellCode (yM mf p) (0, 0, 0) (1/2) = 32"
  "GetCellCode (yM mf p) (0, 0, 1) (1/2) = 2"
  by (simp_all add: GetCellCode_def orIf_def yM_gA yM_sample)

lemma yM_pcodes:
  "GetDualPointCode (yM mf p) (1, 0, 1) (1/2) EDGE8 = 265"
  "GetDualPointCode (yM mf p) (1, 0, 0) (1/2) EDGE11 = 2060"
  "GetDualPointCode (yM mf p) (0, 0, 0) (1/2) EDGE10 = 1030"
  "GetDualPointCode (yM mf p) (0, 0, 1) (1/2) EDGE9 = 515"
  by (simp_all add: GetDualPointCode_def ManifoldCubeCode_not_ambiguous yM_codes not_ambiguous_rows
        dualPointsList_rows EDGE_defs)

lemma yM_vertices:
  "CalculateDualPoint (yM mf p) (1, 0, 1) (1/2) 265 = \<lparr>position = (7/6, 1/6, 7/6)\<rparr>"
  "CalculateDualPoint (yM mf p) (1, 0, 0) (1/2) 2060 = \<lparr>position = (7/6, 1/6, 5/6)\<rparr>"
  "CalculateDualPoint (yM mf p) (0, 0, 0) (1/2) 1030 = \<lparr>position = (5/6, 1/6, 5/6)\<rparr>"
  "CalculateDualPoint (yM mf p) (0, 0, 1) (1/2) 515 = \<lparr>position = (5/6, 1/6, 7/6)\<rparr>"
  by (simp_all add: CalculateDualPoint_def sumEdges_def edgeBlock_def crossing_def yM_gA yM_sample EDGE_defs)

lemma yM_faceIndices:
  "GetFaceIndices (yM mf Map.empty) (1/2) ((1, 0, 1), (1, 0, 0), (0, 0, 0), (0, 0, 1))
       (EDGE8, EDGE11, EDGE10, EDGE9) [] =
     ((0, 1, 2, 3),
      yM mf [DualPointKey 13 265 \<mapsto> 0, DualPointKey 1 2060 \<mapsto> 1, DualPointKey 0 1030 \<mapsto> 2,
         DualPointKey 12 515 \<mapsto> 3],
      [\<lparr>position = (7/6, 1/6, 7/6)\<rparr>, \<lparr>position = (7/6, 1/6, 5/6)\<rparr>,
       \<lparr>position = (5/6, 1/6, 5/6)\<rparr>, \<lparr>position = (5/6, 1/6, 7/6)\<rparr>])"
  by (simp add: GetFaceIndices_def GetSharedDualPointIndex_def yM_pcodes yM_vertices gA3_def yM_gA yM_fields)

lemma yM_status:
  "GetStatus (yM mf p) (1/2) 1 0 1 0 1 0 = (True, False)"
  by (simp add: GetStatus_def yM_gA yM_sample)

lemma yM_cellStep:
  "cellStep (1/2) topology 0 0 0 st = st"
  "cellStep (1/2) topology 1 0 0 st = st"
  "cellStep (1/2) topology 0 0 1 st = st"
  "cellStep (1/2) topology 1 0 1 (yM mf Map.empty, emptyMesh) =
     (yM mf [DualPointKey 13 265 \<mapsto> 0, DualPointKey 1 2060 \<mapsto> 1, DualPointKey 0 1030 \<mapsto> 2,
         DualPointKey 12 515 \<mapsto> 3],
      \<lparr>vertices = [\<lparr>position = (7/6, 1/6, 7/6)\<rparr>, \<lparr>position = (7/6, 1/6, 5/6)\<rparr>,
                       \<lparr>position = (5/6, 1/6, 5/6)\<rparr>, \<lparr>position = (5/6, 1/6, 7/6)\<rparr>],
           indices = faceIndices topology False 0 1 2 3\<rparr>)"
  by (simp_all add: cellStep_def xEdge_def zEdge_def yEdge_def yM_status ConstructFace_def
        yM_faceIndices emptyMesh_def)

lemma yM_Build:
  "Build freshMesher yEdgeVolume (4, 3, 4) (1/2) mf topology =
     Some \<lparr>vertices = [\<lparr>position = (7/6, 1/6, 7/6)\<rparr>, \<lparr>position = (7/6, 1/6, 5/6)\<rparr>,
                       \<lparr>position = (5/6, 1/6, 5/6)\<rparr>, \<lparr>position = (5/6, 1/6, 7/6)\<rparr>],
           indices = faceIndices topology False 0 1 2 3\<rparr>"
proof -
  have m: "freshMesher\<lparr>volume := yEdgeVolume, dims := (4, 3, 4), generateManifold := mf,
      pointToIndex := Map.empty\<rparr> = yM mf Map.empty"
    by (simp add: yM_def mesherFor_def)
  have len: "length yEdgeVolume = 48" "yEdgeVolume \<noteq> []"
    by (simp_all add: yEdgeVolume_def)
  have e: "\<lparr>vertices = [], indices = []\<rparr> = emptyMesh" by (simp add: emptyMesh_def)
  show ?thesis
    by (simp add: Build_def len BuildInternal_def m yM_fields upto_0_1 e yM_cellStep)
qed

section \<open>The sweep as a fold\<close>

lemma foldl_invariant:
  "P s \<Longrightarrow> (\<And>s x. x \<in> set xs \<Longrightarrow> P s \<Longrightarrow> P (f s x)) \<Longrightarrow> P (foldl f s xs)"
  by (induction xs arbitrary: s) auto

lemma BuildInternal_sweep:
  "BuildInternal m isoV topology mesh =
     foldl (\<lambda>st (x, y, z). cellStep isoV topology x y z st)
       (m\<lparr>pointToIndex := Map.empty\<rparr>, mesh) (sweepCells (dims m))"
proof -
  have c: "foldl f a (concat xss) = foldl (foldl f) a xss" for f :: "'s \<Rightarrow> 'b \<Rightarrow> 's" and a xss
    by (induction xss arbitrary: a) auto
  have mp: "foldl f a (map g xs) = foldl (\<lambda>s x. f s (g x)) a xs"
    for f :: "'s \<Rightarrow> 'b \<Rightarrow> 's" and g :: "'c \<Rightarrow> 'b" and a xs
    by (induction xs arbitrary: a) auto
  obtain d0 d1 d2 where d: "dims m = (d0, d1, d2)" by (cases "dims m")
  show ?thesis
    by (simp add: BuildInternal_def sweepCells_def d c mp)
qed

lemma sweepCells_member:
  "(x, y, z) \<in> set (sweepCells (d0, d1, d2)) \<longleftrightarrow>
     0 \<le> x \<and> x \<le> d0 - 3 \<and> 0 \<le> y \<and> y \<le> d1 - 3 \<and> 0 \<le> z \<and> z \<le> d2 - 3"
  by (force simp: sweepCells_def)

lemma BuildInternal_invariant:
  assumes d: "dims m = (d0, d1, d2)"
    and init: "P (m\<lparr>pointToIndex := Map.empty\<rparr>, mesh)"
    and step: "\<And>x y z st. 0 \<le> x \<Longrightarrow> x \<le> d0 - 3 \<Longrightarrow> 0 \<le> y \<Longrightarrow> y \<le> d1 - 3 \<Longrightarrow>
                 0 \<le> z \<Longrightarrow> z \<le> d2 - 3 \<Longrightarrow> P st \<Longrightarrow> P (cellStep isoV topology x y z st)"
  shows "P (BuildInternal m isoV topology mesh)"
  unfolding BuildInternal_sweep d
proof (rule foldl_invariant [where P = P, OF init])
  fix s :: "'a Mesher \<times> 'a Mesh" and c
  assume c: "c \<in> set (sweepCells (d0, d1, d2))" and s: "P s"
  obtain x y z where xyz: "c = (x, y, z)" by (cases c)
  from c have "0 \<le> x" "x \<le> d0 - 3" "0 \<le> y" "y \<le> d1 - 3" "0 \<le> z" "z \<le> d2 - 3"
    unfolding xyz sweepCells_member by simp_all
  then have "P (cellStep isoV topology x y z s)"
    using s by (rule step)
  then show "P (case c of (x, y, z) \<Rightarrow> cellStep isoV topology x y z s)"
    by (simp add: xyz)
qed

section \<open>Addresses of the sweep are inside the buffer\<close>

lemma gA_in_bounds:
  assumes d: "dims m = (d0, d1, d2)"
    and x: "0 \<le> x" "x < d0" and y: "0 \<le> y" "y < d1" and z: "0 \<le> z" "z < d2"
  shows "0 \<le> gA m x y z \<and> gA m x y z < d0 * d1 * d2"
proof -
  have "d1 * z \<le> d1 * (d2 - 1)"
    using y z by (intro mult_left_mono) auto
  then have yz: "y + d1 * z \<le> d1 * d2 - 1"
    using y by (simp add: algebra_simps)
  have yz0: "0 \<le> y + d1 * z"
    using y z by simp
  have "d0 * (y + d1 * z) \<le> d0 * (d1 * d2 - 1)"
    using x yz by (intro mult_left_mono) auto
  then have "x + d0 * (y + d1 * z) < d0 * d1 * d2"
    using x by (simp add: algebra_simps)
  moreover have "0 \<le> x + d0 * (y + d1 * z)"
    using x yz0 by simp
  ultimately show ?thesis
    by (simp add: gA_def d)
qed

lemma volumeAt_in_set:
  "0 \<le> i \<Longrightarrow> i < int (length (volume m)) \<Longrightarrow> volumeAt m i \<in> set (volume m)"
  by (simp add: volumeAt_def)

lemma sample_in_set:
  assumes d: "dims m = (d0, d1, d2)" and len: "nat (d0 * d1 * d2) \<le> length (volume m)"
    and x: "0 \<le> x" "x < d0" and y: "0 \<le> y" "y < d1" and z: "0 \<le> z" "z < d2"
  shows "volumeAt m (gA m x y z) \<in> set (volume m)"
proof -
  from gA_in_bounds [OF d x y z] len
  have "0 \<le> gA m x y z" "gA m x y z < int (length (volume m))" by linarith+
  then show ?thesis by (rule volumeAt_in_set)
qed

lemma GetStatus_uniform:
  assumes d: "dims m = (d0, d1, d2)" and len: "nat (d0 * d1 * d2) \<le> length (volume m)"
    and x: "0 \<le> x" "x + xo < d0" and y: "0 \<le> y" "y + yo < d1" and z: "0 \<le> z" "z + zo < d2"
    and o: "0 \<le> xo" "0 \<le> yo" "0 \<le> zo"
    and u: "(\<forall>s\<in>set (volume m). s \<ge> isoV) \<or> (\<forall>s\<in>set (volume m). s < isoV)"
  shows "GetStatus m isoV x y z xo yo zo = (False, False)"
proof -
  have a: "volumeAt m (gA m x y z) \<in> set (volume m)"
    using x y z o by (intro sample_in_set [OF d len]) auto
  have b: "volumeAt m (gA m (x + xo) (y + yo) (z + zo)) \<in> set (volume m)"
    using x y z o by (intro sample_in_set [OF d len]) auto
  from u a b show ?thesis
    by (auto simp: GetStatus_def Let_def not_less [symmetric])
qed

lemma cellStep_uniform:
  assumes d: "dims (fst st) = (d0, d1, d2)" and len: "nat (d0 * d1 * d2) \<le> length (volume (fst st))"
    and x: "0 \<le> x" "x \<le> d0 - 3" and y: "0 \<le> y" "y \<le> d1 - 3" and z: "0 \<le> z" "z \<le> d2 - 3"
    and u: "(\<forall>s\<in>set (volume (fst st)). s \<ge> isoV) \<or> (\<forall>s\<in>set (volume (fst st)). s < isoV)"
  shows "cellStep isoV topology x y z st = st"
proof -
  have "GetStatus (fst st) isoV x y z 1 0 0 = (False, False)"
    "GetStatus (fst st) isoV x y z 0 1 0 = (False, False)"
    "GetStatus (fst st) isoV x y z 0 0 1 = (False, False)"
    using x y z by (intro GetStatus_uniform [OF d len _ _ _ _ _ _ _ _ _ u]; simp)+
  then show ?thesis
    by (simp add: cellStep_def xEdge_def yEdge_def zEdge_def)
qed

lemma BuildInternal_uniform:
  assumes d: "dims m = (d0, d1, d2)" and len: "nat (d0 * d1 * d2) \<le> length (volume m)"
    and u: "(\<forall>s\<in>set (volume m). s \<ge> isoV) \<or> (\<forall>s\<in>set (volume m). s < isoV)"
  shows "BuildInternal m isoV topology mesh = (m\<lparr>pointToIndex := Map.empty\<rparr>, mesh)"
proof (rule BuildInternal_invariant [where P = "\<lambda>st. st = (m\<lparr>pointToIndex := Map.empty\<rparr>, mesh)", OF d])
  show "(m\<lparr>pointToIndex := Map.empty\<rparr>, mesh) = (m\<lparr>pointToIndex := Map.empty\<rparr>, mesh)" ..
next
  fix x y z and st :: "'a Mesher \<times> 'a Mesh"
  assume b: "0 \<le> x" "x \<le> d0 - 3" "0 \<le> y" "y \<le> d1 - 3" "0 \<le> z" "z \<le> d2 - 3"
    and st: "st = (m\<lparr>pointToIndex := Map.empty\<rparr>, mesh)"
  have "cellStep isoV topology x y z st = st"
    using b by (intro cellStep_uniform [where ?d0.0 = d0 and ?d1.0 = d1 and ?d2.0 = d2])
      (use d len u in \<open>simp_all add: st\<close>)
  then show "cellStep isoV topology x y z st = (m\<lparr>pointToIndex := Map.empty\<rparr>, mesh)"
    by (simp add: st)
qed

section \<open>Indices stay below the vertex count\<close>

text \<open>Lifting an invariant of the state from \<open>ConstructFace\<close> to \<open>cellStep\<close>.\<close>

lemma cellStep_invariant:
  assumes face: "\<And>cond cells edges st. P st \<Longrightarrow> P (ConstructFace isoV topology cond cells edges st)"
    and st: "P st"
  shows "P (cellStep isoV topology x y z st)"
proof -
  have x: "P (xEdge isoV topology x y z s)" if "P s" for s
    using that by (auto simp: xEdge_def intro: face split: prod.split)
  have y: "P (yEdge isoV topology x y z s)" if "P s" for s
    using that by (auto simp: yEdge_def intro: face split: prod.split)
  have z: "P (zEdge isoV topology x y z s)" if "P s" for s
    using that by (auto simp: zEdge_def intro: face split: prod.split)
  show ?thesis
    unfolding cellStep_def by (intro x y z st)
qed

lemma unat_vertex_id: "unat (word_of_nat n :: 32 word) \<le> n"
  by (simp add: unat_of_nat)

lemma GetSharedDualPointIndex_below:
  assumes "GetSharedDualPointIndex m cell isoV edge vs = (i, m', vs')" "cacheBelow m vs"
  shows "cacheBelow m' vs' \<and> unat i < length vs' \<and> length vs \<le> length vs'"
proof (cases "pointToIndex m (DualPointKey (gA3 m cell) (GetDualPointCode m cell isoV edge))")
  case None
  with assms(1) have r: "i = word_of_nat (length vs)" "length vs' = Suc (length vs)"
      "pointToIndex m' = (pointToIndex m)
         (DualPointKey (gA3 m cell) (GetDualPointCode m cell isoV edge) \<mapsto> word_of_nat (length vs))"
    by (auto simp: GetSharedDualPointIndex_def Let_def)
  have new: "unat i < length vs'"
    using unat_vertex_id [of "length vs"] by (simp add: r)
  have "unat j < length vs'" if "pointToIndex m' k = Some j" for k j
  proof (cases "k = DualPointKey (gA3 m cell) (GetDualPointCode m cell isoV edge)")
    case True
    with that r have "j = i" by simp
    with new show ?thesis by simp
  next
    case False
    with that r have "pointToIndex m k = Some j" by simp
    with assms(2) have "unat j < length vs" by (simp add: cacheBelow_def)
    then show ?thesis by (simp add: r)
  qed
  then have "cacheBelow m' vs'" by (simp add: cacheBelow_def)
  with new r show ?thesis by simp
next
  case (Some j)
  with assms(1) have r: "i = j" "m' = m" "vs' = vs"
    by (auto simp: GetSharedDualPointIndex_def Let_def)
  from Some assms(2) have "unat j < length vs" by (simp add: cacheBelow_def)
  with assms(2) r show ?thesis by simp
qed

lemma GetFaceIndices_steps:
  obtains i0 ma va i1 mb vb i2 mc vc i3 md vd where
    "GetSharedDualPointIndex m c0 isoV e0 vs = (i0, ma, va)"
    "GetSharedDualPointIndex ma c1 isoV e1 va = (i1, mb, vb)"
    "GetSharedDualPointIndex mb c2 isoV e2 vb = (i2, mc, vc)"
    "GetSharedDualPointIndex mc c3 isoV e3 vc = (i3, md, vd)"
    "GetFaceIndices m isoV (c0, c1, c2, c3) (e0, e1, e2, e3) vs = ((i0, i1, i2, i3), md, vd)"
proof -
  obtain i0 ma va where a: "GetSharedDualPointIndex m c0 isoV e0 vs = (i0, ma, va)"
    by (cases "GetSharedDualPointIndex m c0 isoV e0 vs")
  obtain i1 mb vb where b: "GetSharedDualPointIndex ma c1 isoV e1 va = (i1, mb, vb)"
    by (cases "GetSharedDualPointIndex ma c1 isoV e1 va")
  obtain i2 mc vc where c: "GetSharedDualPointIndex mb c2 isoV e2 vb = (i2, mc, vc)"
    by (cases "GetSharedDualPointIndex mb c2 isoV e2 vb")
  obtain i3 md vd where d: "GetSharedDualPointIndex mc c3 isoV e3 vc = (i3, md, vd)"
    by (cases "GetSharedDualPointIndex mc c3 isoV e3 vc")
  have "GetFaceIndices m isoV (c0, c1, c2, c3) (e0, e1, e2, e3) vs = ((i0, i1, i2, i3), md, vd)"
    by (simp add: GetFaceIndices_def a b c d)
  with a b c d show thesis by (rule that)
qed

lemma GetFaceIndices_below:
  assumes "GetFaceIndices m isoV cells edges vs = ((i0, i1, i2, i3), m', vs')" "cacheBelow m vs"
  shows "cacheBelow m' vs' \<and> unat i0 < length vs' \<and> unat i1 < length vs'
         \<and> unat i2 < length vs' \<and> unat i3 < length vs' \<and> length vs \<le> length vs'"
proof -
  obtain c0 c1 c2 c3 where cells: "cells = (c0, c1, c2, c3)" by (cases cells)
  obtain e0 e1 e2 e3 where edges: "edges = (e0, e1, e2, e3)" by (cases edges)
  obtain j0 ma va j1 mb vb j2 mc vc j3 md vd where
    a: "GetSharedDualPointIndex m c0 isoV e0 vs = (j0, ma, va)" and
    b: "GetSharedDualPointIndex ma c1 isoV e1 va = (j1, mb, vb)" and
    c: "GetSharedDualPointIndex mb c2 isoV e2 vb = (j2, mc, vc)" and
    d: "GetSharedDualPointIndex mc c3 isoV e3 vc = (j3, md, vd)" and
    g: "GetFaceIndices m isoV (c0, c1, c2, c3) (e0, e1, e2, e3) vs = ((j0, j1, j2, j3), md, vd)"
    by (rule GetFaceIndices_steps)
  from g assms(1) have eq: "j0 = i0" "j1 = i1" "j2 = i2" "j3 = i3" "md = m'" "vd = vs'"
    by (simp_all add: cells edges)
  from GetSharedDualPointIndex_below [OF a assms(2)]
  have 1: "cacheBelow ma va" "unat j0 < length va" "length vs \<le> length va" by simp_all
  from GetSharedDualPointIndex_below [OF b 1(1)]
  have 2: "cacheBelow mb vb" "unat j1 < length vb" "length va \<le> length vb" by simp_all
  from GetSharedDualPointIndex_below [OF c 2(1)]
  have 3: "cacheBelow mc vc" "unat j2 < length vc" "length vb \<le> length vc" by simp_all
  from GetSharedDualPointIndex_below [OF d 3(1)]
  have 4: "cacheBelow md vd" "unat j3 < length vd" "length vc \<le> length vd" by simp_all
  from 1 2 3 4 show ?thesis unfolding eq by simp
qed

lemma set_faceIndices:
  "set (faceIndices topology cond i0 i1 i2 i3) = {i0, i1, i2, i3}"
  by (auto simp: faceIndices_def)

lemma ConstructFace_below:
  assumes "indicesBelow st"
  shows "indicesBelow (ConstructFace isoV topology cond cells edges st)"
proof -
  obtain m mesh where st: "st = (m, mesh)" by (cases st)
  obtain i0 i1 i2 i3 m' vs' where
    g: "GetFaceIndices m isoV cells edges (vertices mesh) = ((i0, i1, i2, i3), m', vs')"
    by (cases "GetFaceIndices m isoV cells edges (vertices mesh)") auto
  from assms have cb: "cacheBelow m (vertices mesh)"
    and ib: "\<forall>i\<in>set (indices mesh). unat i < length (vertices mesh)"
    by (simp_all add: indicesBelow_def st)
  from GetFaceIndices_below [OF g cb] ib show ?thesis
    by (auto simp: ConstructFace_def st g indicesBelow_def set_faceIndices)
qed

section \<open>Quad runs and triangle runs in lockstep\<close>

lemma foldl_related:
  "R s t \<Longrightarrow> (\<And>s t x. R s t \<Longrightarrow> R (f s x) (g t x)) \<Longrightarrow> R (foldl f s xs) (foldl g t xs)"
  by (induction xs arbitrary: s t) auto

lemma ConstructFace_sameFaces:
  assumes "sameFaces sq st"
  shows "sameFaces (ConstructFace isoV Quads cond cells edges sq)
                   (ConstructFace isoV Triangles cond cells edges st)"
proof -
  obtain m meshq where sq: "sq = (m, meshq)" by (cases sq)
  obtain m' mesht where st: "st = (m', mesht)" by (cases st)
  from assms have m: "m' = m" and v: "vertices mesht = vertices meshq"
    by (simp_all add: sameFaces_def sq st)
  from assms obtain n where n: "length (indices meshq) = 4 * n" "length (indices mesht) = 6 * n"
    by (auto simp: sameFaces_def sq st)
  obtain i0 i1 i2 i3 m2 vs2 where
    g: "GetFaceIndices m isoV cells edges (vertices meshq) = ((i0, i1, i2, i3), m2, vs2)"
    by (cases "GetFaceIndices m isoV cells edges (vertices meshq)") auto
  have "\<exists>k. 4 * n + 4 = 4 * k \<and> 6 * n + 6 = 6 * k"
    by (rule exI [of _ "Suc n"]) simp
  then show ?thesis
    unfolding sameFaces_def
    by (simp add: ConstructFace_def sq st m v g length_faceIndices n)
qed

lemma cellStep_sameFaces:
  assumes "sameFaces sq st"
  shows "sameFaces (cellStep isoV Quads x y z sq) (cellStep isoV Triangles x y z st)"
proof -
  have f: "fst a = fst b" if "sameFaces a b" for a b :: "'a Mesher \<times> 'a Mesh"
    using that by (simp add: sameFaces_def)
  have x: "sameFaces (xEdge isoV Quads x y z a) (xEdge isoV Triangles x y z b)"
    if "sameFaces a b" for a b
    using that f [OF that] by (auto simp: xEdge_def intro: ConstructFace_sameFaces split: prod.split)
  have y: "sameFaces (yEdge isoV Quads x y z a) (yEdge isoV Triangles x y z b)"
    if "sameFaces a b" for a b
    using that f [OF that] by (auto simp: yEdge_def intro: ConstructFace_sameFaces split: prod.split)
  have z: "sameFaces (zEdge isoV Quads x y z a) (zEdge isoV Triangles x y z b)"
    if "sameFaces a b" for a b
    using that f [OF that] by (auto simp: zEdge_def intro: ConstructFace_sameFaces split: prod.split)
  show ?thesis
    unfolding cellStep_def by (intro x y z assms)
qed

lemma BuildInternal_sameFaces:
  "sameFaces (BuildInternal m isoV Quads \<lparr>vertices = [], indices = []\<rparr>)
             (BuildInternal m isoV Triangles \<lparr>vertices = [], indices = []\<rparr>)"
  unfolding BuildInternal_sweep
proof (rule foldl_related [where R = sameFaces])
  show "sameFaces (m\<lparr>pointToIndex := Map.empty\<rparr>, \<lparr>vertices = [], indices = []\<rparr>)
                  (m\<lparr>pointToIndex := Map.empty\<rparr>, \<lparr>vertices = [], indices = []\<rparr>)"
    by (simp add: sameFaces_def)
next
  fix s t :: "'a Mesher \<times> 'a Mesh" and c :: int3
  assume "sameFaces s t"
  then show "sameFaces (case c of (x, y, z) \<Rightarrow> cellStep isoV Quads x y z s)
                       (case c of (x, y, z) \<Rightarrow> cellStep isoV Triangles x y z t)"
    by (cases c) (simp add: cellStep_sameFaces)
qed

section \<open>The cache during the sweep\<close>

lemma cache_frame:
  "gA (m\<lparr>pointToIndex := p\<rparr>) = gA m"
  "gA3 (m\<lparr>pointToIndex := p\<rparr>) = gA3 m"
  "volumeAt (m\<lparr>pointToIndex := p\<rparr>) = volumeAt m"
  "GetCellCode (m\<lparr>pointToIndex := p\<rparr>) = GetCellCode m"
  "ManifoldCubeCode (m\<lparr>pointToIndex := p\<rparr>) = ManifoldCubeCode m"
  "GetDualPointCode (m\<lparr>pointToIndex := p\<rparr>) = GetDualPointCode m"
  "crossing (m\<lparr>pointToIndex := p\<rparr>) = crossing m"
  "sumEdges (m\<lparr>pointToIndex := p\<rparr>) = sumEdges m"
  "CalculateDualPoint (m\<lparr>pointToIndex := p\<rparr>) = CalculateDualPoint m"
proof -
  show a: "gA (m\<lparr>pointToIndex := p\<rparr>) = gA m" by (simp add: gA_def fun_eq_iff)
  show "gA3 (m\<lparr>pointToIndex := p\<rparr>) = gA3 m" by (simp add: gA3_def a fun_eq_iff)
  show b: "volumeAt (m\<lparr>pointToIndex := p\<rparr>) = volumeAt m" by (simp add: volumeAt_def fun_eq_iff)
  show c: "GetCellCode (m\<lparr>pointToIndex := p\<rparr>) = GetCellCode m"
    by (simp add: GetCellCode_def a b fun_eq_iff)
  show d: "ManifoldCubeCode (m\<lparr>pointToIndex := p\<rparr>) = ManifoldCubeCode m"
    by (simp add: ManifoldCubeCode_def c fun_eq_iff Let_def)
  show "GetDualPointCode (m\<lparr>pointToIndex := p\<rparr>) = GetDualPointCode m"
    by (simp add: GetDualPointCode_def d fun_eq_iff)
  show e: "crossing (m\<lparr>pointToIndex := p\<rparr>) = crossing m"
    by (simp add: crossing_def b fun_eq_iff)
  show f: "sumEdges (m\<lparr>pointToIndex := p\<rparr>) = sumEdges m"
    by (simp add: sumEdges_def a e fun_eq_iff)
  show "CalculateDualPoint (m\<lparr>pointToIndex := p\<rparr>) = CalculateDualPoint m"
    by (simp add: CalculateDualPoint_def f fun_eq_iff)
qed

lemma GetSharedDualPointIndex_miss:
  assumes "pointToIndex m (DualPointKey (gA3 m cell) (GetDualPointCode m cell isoV edge)) = None"
  shows "GetSharedDualPointIndex m cell isoV edge vs =
     (word_of_nat (length vs),
      m\<lparr>pointToIndex := (pointToIndex m)
          (DualPointKey (gA3 m cell) (GetDualPointCode m cell isoV edge) \<mapsto> word_of_nat (length vs))\<rparr>,
      vs @ [CalculateDualPoint m cell isoV (GetDualPointCode m cell isoV edge)])"
  using assms by (simp add: GetSharedDualPointIndex_def Let_def)

lemma GetSharedDualPointIndex_hit:
  assumes "pointToIndex m (DualPointKey (gA3 m cell) (GetDualPointCode m cell isoV edge)) = Some i"
  shows "GetSharedDualPointIndex m cell isoV edge vs = (i, m, vs)"
  using assms by (simp add: GetSharedDualPointIndex_def Let_def)

lemma GetSharedDualPointIndex_keeps:
  "pointToIndex m \<subseteq>\<^sub>m pointToIndex (fst (snd (GetSharedDualPointIndex m cell isoV edge vs)))"
  by (cases "pointToIndex m (DualPointKey (gA3 m cell) (GetDualPointCode m cell isoV edge))")
     (auto simp: GetSharedDualPointIndex_miss GetSharedDualPointIndex_hit map_le_def)

lemma GetSharedDualPointIndex_origins:
  assumes r: "GetSharedDualPointIndex m cell isoV edge vs = (i, m', vs')"
    and inv: "cacheOrigins m0 isoV (m, mesh\<lparr>vertices := vs\<rparr>) os"
  shows "\<exists>os'. cacheOrigins m0 isoV (m', mesh'\<lparr>vertices := vs'\<rparr>) os'"
proof -
  from inv have m: "m = m0\<lparr>pointToIndex := pointToIndex m\<rparr>"
    and vs: "vs = map (dualPointOf m0 isoV) os"
    and dist: "distinct (map (keyOf m0) os)"
    and dm: "dom (pointToIndex m) = set (map (keyOf m0) os)"
    and ix: "\<And>j. j < length os \<Longrightarrow> pointToIndex m (keyOf m0 (os ! j)) = Some (word_of_nat j)"
    by (simp_all add: cacheOrigins_def)
  let ?pc = "GetDualPointCode m0 cell isoV edge"
  let ?key = "DualPointKey (gA3 m0 cell) ?pc"
  have fr: "gA3 m = gA3 m0" "GetDualPointCode m = GetDualPointCode m0"
    "CalculateDualPoint m = CalculateDualPoint m0"
    by (subst m, simp add: cache_frame)+
  show ?thesis
  proof (cases "pointToIndex m ?key")
    case None
    then have r': "m' = m\<lparr>pointToIndex := (pointToIndex m)(?key \<mapsto> word_of_nat (length vs))\<rparr>"
      "vs' = vs @ [CalculateDualPoint m0 cell isoV ?pc]"
      using r by (auto simp: GetSharedDualPointIndex_def Let_def fr)
    let ?os = "os @ [(cell, ?pc)]"
    have k: "keyOf m0 (cell, ?pc) = ?key" by (simp add: keyOf_def)
    have notin: "?key \<notin> set (map (keyOf m0) os)"
      using None dm by (metis domIff)
    have 1: "m' = m0\<lparr>pointToIndex := pointToIndex m'\<rparr>"
      by (subst (2) r'(1), subst r'(1), subst m) simp
    have 2: "vs' = map (dualPointOf m0 isoV) ?os"
      by (simp add: r' vs dualPointOf_def)
    have 3: "distinct (map (keyOf m0) ?os)"
      using dist notin by (simp add: k)
    have 4: "dom (pointToIndex m') = set (map (keyOf m0) ?os)"
      by (simp add: r' dm k)
    have 5: "pointToIndex m' (keyOf m0 (?os ! j)) = Some (word_of_nat j)" if "j < length ?os" for j
    proof (cases "j < length os")
      case True
      then have "keyOf m0 (os ! j) \<in> set (map (keyOf m0) os)" by simp
      with notin have "keyOf m0 (os ! j) \<noteq> ?key" by metis
      with True ix [OF True] show ?thesis
        by (simp add: r' nth_append)
    next
      case False
      with that have "j = length os" by simp
      then show ?thesis
        by (simp add: r' k vs)
    qed
    from 1 2 3 4 5 have "cacheOrigins m0 isoV (m', mesh'\<lparr>vertices := vs'\<rparr>) ?os"
      unfolding cacheOrigins_def by simp
    then show ?thesis ..
  next
    case (Some i')
    then have "m' = m" "vs' = vs"
      using r by (simp_all add: GetSharedDualPointIndex_def Let_def fr)
    with inv have "cacheOrigins m0 isoV (m', mesh'\<lparr>vertices := vs'\<rparr>) os"
      by (simp add: cacheOrigins_def)
    then show ?thesis ..
  qed
qed

lemma ConstructFace_origins:
  assumes "\<exists>os. cacheOrigins m0 isoV st os"
  shows "\<exists>os. cacheOrigins m0 isoV (ConstructFace isoV topology cond cells edges st) os"
proof -
  obtain m mesh where st: "st = (m, mesh)" by (cases st)
  obtain c0 c1 c2 c3 where cells: "cells = (c0, c1, c2, c3)" by (cases cells)
  obtain e0 e1 e2 e3 where edges: "edges = (e0, e1, e2, e3)" by (cases edges)
  obtain i0 ma va i1 mb vb i2 mc vc i3 md vd where
    a: "GetSharedDualPointIndex m c0 isoV e0 (vertices mesh) = (i0, ma, va)" and
    b: "GetSharedDualPointIndex ma c1 isoV e1 va = (i1, mb, vb)" and
    c: "GetSharedDualPointIndex mb c2 isoV e2 vb = (i2, mc, vc)" and
    d: "GetSharedDualPointIndex mc c3 isoV e3 vc = (i3, md, vd)" and
    g: "GetFaceIndices m isoV (c0, c1, c2, c3) (e0, e1, e2, e3) (vertices mesh)
          = ((i0, i1, i2, i3), md, vd)"
    by (rule GetFaceIndices_steps)
  from assms obtain os where "cacheOrigins m0 isoV (m, mesh\<lparr>vertices := vertices mesh\<rparr>) os"
    by (auto simp: st)
  from GetSharedDualPointIndex_origins [OF a this]
  obtain osa where "cacheOrigins m0 isoV (ma, mesh\<lparr>vertices := va\<rparr>) osa" by blast
  from GetSharedDualPointIndex_origins [OF b this]
  obtain osb where "cacheOrigins m0 isoV (mb, mesh\<lparr>vertices := vb\<rparr>) osb" by blast
  from GetSharedDualPointIndex_origins [OF c this]
  obtain osc where "cacheOrigins m0 isoV (mc, mesh\<lparr>vertices := vc\<rparr>) osc" by blast
  from GetSharedDualPointIndex_origins [OF d this]
  obtain osd where "cacheOrigins m0 isoV (md, mesh\<lparr>vertices := vd\<rparr>) osd" by blast
  then have "cacheOrigins m0 isoV (ConstructFace isoV topology cond cells edges st) osd"
    by (simp add: ConstructFace_def st cells edges g cacheOrigins_def)
  then show ?thesis ..
qed

lemma BuildInternal_origins:
  "\<exists>os. cacheOrigins (m\<lparr>pointToIndex := Map.empty\<rparr>) isoV
          (BuildInternal m isoV topology \<lparr>vertices = [], indices = []\<rparr>) os"
proof -
  let ?m0 = "m\<lparr>pointToIndex := Map.empty\<rparr>"
  obtain d0 d1 d2 where d: "dims m = (d0, d1, d2)" by (cases "dims m")
  show ?thesis
  proof (rule BuildInternal_invariant [where P = "\<lambda>st. \<exists>os. cacheOrigins ?m0 isoV st os", OF d])
    have "cacheOrigins ?m0 isoV (?m0, \<lparr>vertices = [], indices = []\<rparr>) []"
      by (simp add: cacheOrigins_def)
    then show "\<exists>os. cacheOrigins ?m0 isoV (?m0, \<lparr>vertices = [], indices = []\<rparr>) os" ..
  next
    fix x y z and st :: "'a Mesher \<times> 'a Mesh"
    assume st: "\<exists>os. cacheOrigins ?m0 isoV st os"
    show "\<exists>os. cacheOrigins ?m0 isoV (cellStep isoV topology x y z st) os"
    proof (rule cellStep_invariant [where P = "\<lambda>st. \<exists>os. cacheOrigins ?m0 isoV st os"])
      show "\<exists>os. cacheOrigins ?m0 isoV (ConstructFace isoV topology cond cells edges s) os"
        if "\<exists>os. cacheOrigins ?m0 isoV s os" for cond cells edges s
        using that by (rule ConstructFace_origins)
      show "\<exists>os. cacheOrigins ?m0 isoV st os" by (rule st)
    qed
  qed
qed

lemma vertex_id_is_count: "n < 2 ^ 32 \<Longrightarrow> unat (word_of_nat n :: 32 word) = n"
  by (simp add: unat_of_nat)

section \<open>Volumes of three samples per axis\<close>

lemma BuildInternal_3x3x3:
  assumes "dims m = (3, 3, 3)"
  shows "BuildInternal m isoV topology mesh = (m\<lparr>pointToIndex := Map.empty\<rparr>, mesh)"
  using assms
  by (simp add: BuildInternal_def cellStep_def xEdge_def yEdge_def zEdge_def upto_0_1)

lemma cornerVolume_samples:
  "length cornerVolume = 27 \<and> cornerVolume ! 0 = 0 \<and> list_all (\<lambda>s. s = 1) (tl cornerVolume)"
  by code_simp

section \<open>Evaluation of a volume with one sample inside\<close>

lemma dualPointsList_more_rows:
  "dualPointsList ! 4 = [EDGE4 OR EDGE7 OR EDGE8, 0, 0, 0]"
  "dualPointsList ! 8 = [EDGE4 OR EDGE5 OR EDGE9, 0, 0, 0]"
  "dualPointsList ! 64 = [EDGE6 OR EDGE7 OR EDGE11, 0, 0, 0]"
  by (simp_all add: dualPointsList_def)

lemma not_ambiguous_more_rows:
  "\<not> ambiguous 4" "\<not> ambiguous 8" "\<not> ambiguous 64"
  by (simp_all add: ambiguous_def problematicConfigs_def)

lemma oM_fields:
  "dims (oM mf p) = (4, 4, 4)" "volume (oM mf p) = oneInsideVolume"
  "generateManifold (oM mf p) = mf" "pointToIndex (oM mf p) = p"
  "(oM mf p)\<lparr>pointToIndex := q\<rparr> = oM mf q"
  by (simp_all add: oM_def mesherFor_def freshMesher_def)

lemma oM_sample: "0 \<le> i \<Longrightarrow> i < 64 \<Longrightarrow> volumeAt (oM mf p) i = (if i = 21 then 1 else 0)"
  by (auto simp: volumeAt_def oM_fields oneInsideVolume_def)

lemma oM_gA: "gA (oM mf p) x y z = x + 4 * (y + 4 * z)"
  by (simp add: gA_def oM_fields)

lemma oM_codes:
  "GetCellCode (oM mf p) (1, 1, 1) (1/2) = 1"
  "GetCellCode (oM mf p) (1, 1, 0) (1/2) = 16"
  "GetCellCode (oM mf p) (1, 0, 0) (1/2) = 64"
  "GetCellCode (oM mf p) (1, 0, 1) (1/2) = 4"
  "GetCellCode (oM mf p) (0, 1, 0) (1/2) = 32"
  "GetCellCode (oM mf p) (0, 1, 1) (1/2) = 2"
  "GetCellCode (oM mf p) (0, 0, 1) (1/2) = 8"
  by (simp_all add: GetCellCode_def orIf_def oM_gA oM_sample)

lemma oM_pcodes:
  "GetDualPointCode (oM mf p) (1, 1, 1) (1/2) EDGE0 = 265"
  "GetDualPointCode (oM mf p) (1, 1, 0) (1/2) EDGE2 = 2060"
  "GetDualPointCode (oM mf p) (1, 0, 0) (1/2) EDGE6 = 2240"
  "GetDualPointCode (oM mf p) (1, 0, 1) (1/2) EDGE4 = 400"
  "GetDualPointCode (oM mf p) (1, 1, 1) (1/2) EDGE8 = 265"
  "GetDualPointCode (oM mf p) (1, 1, 0) (1/2) EDGE11 = 2060"
  "GetDualPointCode (oM mf p) (0, 1, 0) (1/2) EDGE10 = 1030"
  "GetDualPointCode (oM mf p) (0, 1, 1) (1/2) EDGE9 = 515"
  "GetDualPointCode (oM mf p) (1, 1, 1) (1/2) EDGE3 = 265"
  "GetDualPointCode (oM mf p) (0, 1, 1) (1/2) EDGE1 = 515"
  "GetDualPointCode (oM mf p) (0, 0, 1) (1/2) EDGE5 = 560"
  "GetDualPointCode (oM mf p) (1, 0, 1) (1/2) EDGE7 = 400"
  by (simp_all add: GetDualPointCode_def ManifoldCubeCode_not_ambiguous oM_codes
        not_ambiguous_rows not_ambiguous_more_rows dualPointsList_rows dualPointsList_more_rows
        EDGE_defs)

lemma oM_status:
  "GetStatus (oM mf p) (1/2) 1 1 1 1 0 0 = (True, False)"
  "GetStatus (oM mf p) (1/2) 1 1 1 0 1 0 = (True, False)"
  "GetStatus (oM mf p) (1/2) 1 1 1 0 0 1 = (True, False)"
  by (simp_all add: GetStatus_def oM_gA oM_sample)

lemma oM_faceIndices:
  "fst (GetFaceIndices (oM mf Map.empty) (1/2) ((1, 1, 1), (1, 1, 0), (1, 0, 0), (1, 0, 1))
       (EDGE0, EDGE2, EDGE6, EDGE4) []) = (0, 1, 2, 3)"
  "fst (GetFaceIndices (oM mf Map.empty) (1/2) ((1, 1, 1), (1, 1, 0), (0, 1, 0), (0, 1, 1))
       (EDGE8, EDGE11, EDGE10, EDGE9) []) = (0, 1, 2, 3)"
  "fst (GetFaceIndices (oM mf Map.empty) (1/2) ((1, 1, 1), (0, 1, 1), (0, 0, 1), (1, 0, 1))
       (EDGE3, EDGE1, EDGE5, EDGE7) []) = (0, 1, 2, 3)"
  by (simp_all add: GetFaceIndices_def GetSharedDualPointIndex_def oM_pcodes gA3_def oM_gA oM_fields)

lemma oM_edge_indices:
  "indices (snd (xEdge (1/2) topology 1 1 1 (oM mf Map.empty, emptyMesh)))
     = faceIndices topology True 0 1 2 3"
  "indices (snd (yEdge (1/2) topology 1 1 1 (oM mf Map.empty, emptyMesh)))
     = faceIndices topology False 0 1 2 3"
  "indices (snd (zEdge (1/2) topology 1 1 1 (oM mf Map.empty, emptyMesh)))
     = faceIndices topology False 0 1 2 3"
  using oM_faceIndices [of mf]
  by (auto simp: xEdge_def yEdge_def zEdge_def oM_status ConstructFace_def emptyMesh_def
        split: prod.splits)

lemma yM_yEdge:
  "indices (snd (yEdge (1/2) topology 1 0 1 (yM mf Map.empty, emptyMesh)))
     = faceIndices topology False 0 1 2 3"
  by (simp add: yEdge_def yM_status ConstructFace_def yM_faceIndices emptyMesh_def)

section \<open>The result of one face\<close>

lemma ConstructFace_result:
  assumes "GetFaceIndices m isoV cells edges (vertices mesh) = ((i0, i1, i2, i3), m', vs')"
  shows "ConstructFace isoV topology cond cells edges (m, mesh) =
           (m', mesh\<lparr>vertices := vs',
                  indices := indices mesh @ faceIndices topology cond i0 i1 i2 i3\<rparr>)"
  using assms by (simp add: ConstructFace_def)

section \<open>The number of cells of the sweep\<close>

lemma length_sweepCells:
  "length (sweepCells (d0, d1, d2)) = nat (d0 - 2) * nat (d1 - 2) * nat (d2 - 2)"
  by (simp add: sweepCells_def length_concat o_def sum_list_triv)

lemma distinct_sweepCells: "distinct (sweepCells d)"
proof -
  obtain d0 d1 d2 where d: "d = (d0, d1, d2)" by (cases d)
  define row where "row y z = map (\<lambda>x. (x, y, z)) [0..d0 - 3]" for y z :: int
  define plane where "plane z = concat (map (\<lambda>y. row y z) [0..d1 - 3])" for z :: int
  have sw: "sweepCells d = concat (map plane [0..d2 - 3])"
    unfolding d sweepCells_def prod.case
    by (rule arg_cong [where f = concat], rule map_cong) (simp_all add: plane_def row_def)
  have set_row: "set (row y z) = {(x, y, z) | x. 0 \<le> x \<and> x \<le> d0 - 3}" for y z
    by (auto simp: row_def)
  have set_plane: "set (plane z) = {(x, y, z) | x y. 0 \<le> x \<and> x \<le> d0 - 3 \<and> 0 \<le> y \<and> y \<le> d1 - 3}"
    for z
    by (auto simp: plane_def set_row)
  show ?thesis
  proof (cases "d0 - 3 < 0 \<or> d1 - 3 < 0")
    case True
    then have "set (plane z) = {}" for z
      unfolding set_plane by auto
    then have "set (sweepCells d) = {}"
      by (simp add: sw)
    then show ?thesis by simp
  next
    case False
    then have ne: "0 \<le> d0 - 3" "0 \<le> d1 - 3" by simp_all
    have drow: "distinct (row y z)" for y z
      by (simp add: row_def distinct_map inj_on_def)
    have irow: "row y z = row y' z \<Longrightarrow> y = y'" for y y' z
    proof -
      assume "row y z = row y' z"
      then have "set (row y z) = set (row y' z)" by simp
      moreover have "(0, y, z) \<in> set (row y z)" using ne by (simp add: set_row)
      ultimately have "(0, y, z) \<in> set (row y' z)" by simp
      then show "y = y'" by (simp add: set_row)
    qed
    have dplane: "distinct (plane z)" for z
      unfolding plane_def
    proof (rule distinct_concat)
      show "distinct (map (\<lambda>y. row y z) [0..d1 - 3])"
        by (auto simp: distinct_map inj_on_def dest: irow)
      show "distinct ys" if "ys \<in> set (map (\<lambda>y. row y z) [0..d1 - 3])" for ys
        using that drow by auto
      show "set ys \<inter> set zs = {}"
        if "ys \<in> set (map (\<lambda>y. row y z) [0..d1 - 3])"
          "zs \<in> set (map (\<lambda>y. row y z) [0..d1 - 3])" "ys \<noteq> zs" for ys zs
        using that by (auto simp: set_row)
    qed
    have iplane: "plane z = plane z' \<Longrightarrow> z = z'" for z z'
    proof -
      assume "plane z = plane z'"
      then have "set (plane z) = set (plane z')" by simp
      moreover have "(0, 0, z) \<in> set (plane z)" using ne by (simp add: set_plane)
      ultimately have "(0, 0, z) \<in> set (plane z')" by simp
      then show "z = z'" by (simp add: set_plane)
    qed
    show ?thesis
      unfolding sw
    proof (rule distinct_concat)
      show "distinct (map plane [0..d2 - 3])"
        by (auto simp: distinct_map inj_on_def dest: iplane)
      show "distinct ys" if "ys \<in> set (map plane [0..d2 - 3])" for ys
        using that dplane by auto
      show "set ys \<inter> set zs = {}"
        if "ys \<in> set (map plane [0..d2 - 3])" "zs \<in> set (map plane [0..d2 - 3])"
          "ys \<noteq> zs" for ys zs
        using that by (auto simp: set_plane)
    qed
  qed
qed

section \<open>Evaluation of a pair of ambiguous cells\<close>

lemma aM_fields:
  "dims (aM mf) = (3, 2, 2)" "volume (aM mf) = ambiguousPairVolume" "generateManifold (aM mf) = mf"
  by (simp_all add: aM_def mesherFor_def freshMesher_def)

lemma aM_sample:
  "0 \<le> i \<Longrightarrow> i < 12 \<Longrightarrow> volumeAt (aM mf) i = (if i = 1 \<or> 9 \<le> i then 0 else 1)"
  by (auto simp: volumeAt_def aM_fields ambiguousPairVolume_def)

lemma aM_codes:
  "GetCellCode (aM mf) (0, 0, 0) (1/2) = 61"
  "GetCellCode (aM mf) (1, 0, 0) (1/2) = 62"
  by (simp_all add: GetCellCode_def orIf_def gA_def aM_fields aM_sample)

lemma ambiguous_61_62:
  "ambiguous 61" "ambiguousAxis 61 = 0" "ambiguousSign 61 = 1"
  "ambiguous 62" "ambiguousAxis 62 = 0" "ambiguousSign 62 = - 1"
  by (simp_all add: ambiguous_def ambiguousAxis_def ambiguousSign_def problematicConfigs_def)

section \<open>At most one face for a grid edge\<close>

lemma oneFaceOrNone_length:
  "oneFaceOrNone topology f \<Longrightarrow> f = [] \<or> length f = (if topology = Quads then 4 else 6)"
  by (auto simp: oneFaceOrNone_def length_faceIndices)

lemma ConstructFace_oneFace:
  "\<exists>f. indices (snd (ConstructFace isoV topology cond cells edges st)) = indices (snd st) @ f
       \<and> oneFaceOrNone topology f"
  using ConstructFace_indices [of isoV topology cond cells edges st]
  unfolding oneFaceOrNone_def by blast

lemma oneFaceOrNone_Nil: "oneFaceOrNone topology []"
  by (simp add: oneFaceOrNone_def)

lemma nothing_appended: "\<exists>f. indices (snd st) = indices (snd st) @ f \<and> oneFaceOrNone topology f"
  by (rule exI [of _ "[]"]) (simp add: oneFaceOrNone_def)

lemma xEdge_appends:
  "\<exists>f. indices (snd (xEdge isoV topology x y z st)) = indices (snd st) @ f
       \<and> oneFaceOrNone topology f"
  unfolding xEdge_def
  by (auto simp: oneFaceOrNone_Nil split: prod.split intro: ConstructFace_oneFace)

lemma yEdge_appends:
  "\<exists>f. indices (snd (yEdge isoV topology x y z st)) = indices (snd st) @ f
       \<and> oneFaceOrNone topology f"
  unfolding yEdge_def
  by (auto simp: oneFaceOrNone_Nil split: prod.split intro: ConstructFace_oneFace)

lemma zEdge_appends:
  "\<exists>f. indices (snd (zEdge isoV topology x y z st)) = indices (snd st) @ f
       \<and> oneFaceOrNone topology f"
  unfolding zEdge_def
  by (auto simp: oneFaceOrNone_Nil split: prod.split intro: ConstructFace_oneFace)

lemma cellStep_appends:
  "\<exists>fx fy fz.
      indices (snd (xEdge isoV topology x y z st)) = indices (snd st) @ fx
    \<and> indices (snd (yEdge isoV topology x y z (xEdge isoV topology x y z st)))
        = indices (snd st) @ fx @ fy
    \<and> indices (snd (cellStep isoV topology x y z st)) = indices (snd st) @ fx @ fy @ fz
    \<and> oneFaceOrNone topology fx \<and> oneFaceOrNone topology fy \<and> oneFaceOrNone topology fz"
proof -
  let ?sx = "xEdge isoV topology x y z st"
  let ?sy = "yEdge isoV topology x y z ?sx"
  obtain fx where fx: "indices (snd ?sx) = indices (snd st) @ fx" "oneFaceOrNone topology fx"
    using xEdge_appends [of isoV topology x y z st] by blast
  obtain fy where fy: "indices (snd ?sy) = indices (snd ?sx) @ fy" "oneFaceOrNone topology fy"
    using yEdge_appends [of isoV topology x y z ?sx] by blast
  obtain fz where fz: "indices (snd (zEdge isoV topology x y z ?sy)) = indices (snd ?sy) @ fz"
      "oneFaceOrNone topology fz"
    using zEdge_appends [of isoV topology x y z ?sy] by blast
  have "indices (snd ?sy) = indices (snd st) @ fx @ fy"
    by (simp add: fy fx)
  moreover have "indices (snd (cellStep isoV topology x y z st)) = indices (snd st) @ fx @ fy @ fz"
    by (simp add: cellStep_def fz fy fx)
  ultimately show ?thesis
    using fx fy fz by blast
qed

lemma length_cellFaces:
  "cellFacesOk topology t \<Longrightarrow> length (cellFaces t) \<le> 3 * (if topology = Quads then 4 else 6)"
proof -
  assume ok: "cellFacesOk topology t"
  obtain fx fy fz where t: "t = (fx, fy, fz)" by (cases t)
  from ok have "length fx \<le> (if topology = Quads then 4 else 6)"
    "length fy \<le> (if topology = Quads then 4 else 6)"
    "length fz \<le> (if topology = Quads then 4 else 6)"
    using oneFaceOrNone_length [of topology fx] oneFaceOrNone_length [of topology fy]
      oneFaceOrNone_length [of topology fz]
    by (auto simp: cellFacesOk_def t)
  then show ?thesis by (simp add: cellFaces_def t)
qed

lemma sweep_appends:
  "\<exists>fs. length fs = length cs
     \<and> indices (snd (foldl (\<lambda>st (x, y, z). cellStep isoV topology x y z st) st cs))
         = indices (snd st) @ concat (map cellFaces fs)
     \<and> list_all (cellFacesOk topology) fs"
proof (induction cs arbitrary: st)
  case Nil
  show ?case by (rule exI [of _ "[]"]) simp
next
  case (Cons c cs)
  obtain x y z where c: "c = (x, y, z)" by (cases c)
  let ?s = "cellStep isoV topology x y z st"
  obtain fx fy fz where f: "indices (snd ?s) = indices (snd st) @ fx @ fy @ fz"
      "oneFaceOrNone topology fx" "oneFaceOrNone topology fy" "oneFaceOrNone topology fz"
    using cellStep_appends [of isoV topology x y z st] by blast
  from Cons.IH [of ?s] obtain fs where fs: "length fs = length cs"
      "indices (snd (foldl (\<lambda>st (x, y, z). cellStep isoV topology x y z st) ?s cs))
         = indices (snd ?s) @ concat (map cellFaces fs)"
      "list_all (cellFacesOk topology) fs"
    by blast
  have h: "cellFaces (fx, fy, fz) = fx @ fy @ fz" "cellFacesOk topology (fx, fy, fz)"
    using f by (simp_all add: cellFaces_def cellFacesOk_def)
  show ?case
    by (rule exI [of _ "(fx, fy, fz) # fs"]) (simp add: c fs f h)
qed

lemma length_concat_cellFaces:
  "list_all (cellFacesOk topology) fs \<Longrightarrow>
     length (concat (map cellFaces fs)) \<le> length fs * (3 * (if topology = Quads then 4 else 6))"
proof (induction fs)
  case Nil
  show ?case by simp
next
  case (Cons t fs)
  then have "length (cellFaces t) \<le> 3 * (if topology = Quads then 4 else 6)"
    and "length (concat (map cellFaces fs)) \<le> length fs * (3 * (if topology = Quads then 4 else 6))"
    by (simp_all add: length_cellFaces)
  then show ?case by simp
qed

lemma BuildInternal_appends:
  "\<exists>fs. length fs = length (sweepCells (dims m))
     \<and> indices (snd (BuildInternal m isoV topology mesh))
         = indices mesh @ concat (map cellFaces fs)
     \<and> list_all (cellFacesOk topology) fs"
  using sweep_appends [of "sweepCells (dims m)" isoV topology "(m\<lparr>pointToIndex := Map.empty\<rparr>, mesh)"]
  by (simp add: BuildInternal_sweep)

lemma BuildInternal_index_bound:
  "length (indices (snd (BuildInternal m isoV topology mesh)))
     \<le> length (indices mesh)
        + length (sweepCells (dims m)) * (3 * (if topology = Quads then 4 else 6))"
proof -
  obtain fs where fs: "length fs = length (sweepCells (dims m))"
      "indices (snd (BuildInternal m isoV topology mesh)) = indices mesh @ concat (map cellFaces fs)"
      "list_all (cellFacesOk topology) fs"
    using BuildInternal_appends [of m isoV topology mesh] by blast
  from length_concat_cellFaces [OF fs(3)] show ?thesis
    by (simp add: fs)
qed

lemma yM_BuildInternal:
  "indices (snd (BuildInternal (yM mf Map.empty) (1/2) topology emptyMesh))
     = faceIndices topology False 0 1 2 3"
  by (simp add: BuildInternal_def yM_fields upto_0_1 yM_cellStep)

section \<open>The edge classification (C9)\<close>

text \<open>
  Claim C9. \<open>GetStatus\<close> never returns \<open>entering\<close> and \<open>exiting\<close> together, for any
  mesher, threshold, cell coordinate and offset, so each grid edge produces at most one
  face per sweep: each of the three axis blocks of the loop body appends to the index
  sequence either nothing or the indices of exactly one face (four for quads, six for
  triangles); the loop body at a cell appends \<open>fx @ fy @ fz\<close>, one such sequence for the
  x edge, one for the y edge and one for the z edge of the cell, each empty or one
  face; \<open>BuildInternal\<close> appends to the mesh one such triple for each cell of the sweep
  and nothing else, the sweep visits no cell twice, and so the index count grows by at
  most three faces for each cell of the sweep.
\<close>

theorem GetStatus_exclusive:
  "\<not> (fst (GetStatus m isoV x y z xOffset yOffset zOffset)
      \<and> snd (GetStatus m isoV x y z xOffset yOffset zOffset))
   \<and> (\<exists>f. indices (snd (xEdge isoV topology x y z st)) = indices (snd st) @ f
          \<and> (f = [] \<or> length f = (if topology = Quads then 4 else 6)))
   \<and> (\<exists>f. indices (snd (yEdge isoV topology x y z st)) = indices (snd st) @ f
          \<and> (f = [] \<or> length f = (if topology = Quads then 4 else 6)))
   \<and> (\<exists>f. indices (snd (zEdge isoV topology x y z st)) = indices (snd st) @ f
          \<and> (f = [] \<or> length f = (if topology = Quads then 4 else 6)))
   \<and> distinct (sweepCells d)
   \<and> (\<exists>fx fy fz.
          indices (snd (xEdge isoV topology x y z st)) = indices (snd st) @ fx
        \<and> indices (snd (yEdge isoV topology x y z (xEdge isoV topology x y z st)))
            = indices (snd st) @ fx @ fy
        \<and> indices (snd (cellStep isoV topology x y z st)) = indices (snd st) @ fx @ fy @ fz
        \<and> oneFaceOrNone topology fx \<and> oneFaceOrNone topology fy \<and> oneFaceOrNone topology fz)
   \<and> (\<exists>fs. length fs = length (sweepCells (dims m))
          \<and> indices (snd (BuildInternal m isoV topology mesh))
              = indices mesh @ concat (map cellFaces fs)
          \<and> list_all (cellFacesOk topology) fs)
   \<and> length (indices (snd (BuildInternal m isoV topology mesh)))
        \<le> length (indices mesh)
           + length (sweepCells (dims m)) * (3 * (if topology = Quads then 4 else 6))"
proof (intro conjI)
  show "\<not> (fst (GetStatus m isoV x y z xOffset yOffset zOffset)
      \<and> snd (GetStatus m isoV x y z xOffset yOffset zOffset))"
    by (auto simp: GetStatus_def Let_def)
next
  show "\<exists>f. indices (snd (xEdge isoV topology x y z st)) = indices (snd st) @ f
          \<and> (f = [] \<or> length f = (if topology = Quads then 4 else 6))"
    using xEdge_appends [of isoV topology x y z st] oneFaceOrNone_length [of topology] by blast
next
  show "\<exists>f. indices (snd (yEdge isoV topology x y z st)) = indices (snd st) @ f
          \<and> (f = [] \<or> length f = (if topology = Quads then 4 else 6))"
    using yEdge_appends [of isoV topology x y z st] oneFaceOrNone_length [of topology] by blast
next
  show "\<exists>f. indices (snd (zEdge isoV topology x y z st)) = indices (snd st) @ f
          \<and> (f = [] \<or> length f = (if topology = Quads then 4 else 6))"
    using zEdge_appends [of isoV topology x y z st] oneFaceOrNone_length [of topology] by blast
next
  show "distinct (sweepCells d)"
    by (rule distinct_sweepCells)
next
  show "\<exists>fx fy fz.
          indices (snd (xEdge isoV topology x y z st)) = indices (snd st) @ fx
        \<and> indices (snd (yEdge isoV topology x y z (xEdge isoV topology x y z st)))
            = indices (snd st) @ fx @ fy
        \<and> indices (snd (cellStep isoV topology x y z st)) = indices (snd st) @ fx @ fy @ fz
        \<and> oneFaceOrNone topology fx \<and> oneFaceOrNone topology fy \<and> oneFaceOrNone topology fz"
    by (rule cellStep_appends)
next
  show "\<exists>fs. length fs = length (sweepCells (dims m))
          \<and> indices (snd (BuildInternal m isoV topology mesh))
              = indices mesh @ concat (map cellFaces fs)
          \<and> list_all (cellFacesOk topology) fs"
    by (rule BuildInternal_appends)
next
  show "length (indices (snd (BuildInternal m isoV topology mesh)))
        \<le> length (indices mesh)
           + length (sweepCells (dims m)) * (3 * (if topology = Quads then 4 else 6))"
    by (rule BuildInternal_index_bound)
qed

theorem GetStatus_exclusive_witness:
  "GetStatus (yM False Map.empty) (1/2) 1 0 1 0 1 0 = (True, False)
   \<and> \<not> (fst (GetStatus (yM False Map.empty) (1/2) 1 0 1 0 1 0)
        \<and> snd (GetStatus (yM False Map.empty) (1/2) 1 0 1 0 1 0))
   \<and> length (sweepCells (4, 3, 4)) = 4
   \<and> indices (snd (BuildInternal (yM False Map.empty) (1/2) Quads emptyMesh)) = [0, 3, 2, 1]
   \<and> (\<exists>fs. length fs = 4 \<and> [0, 3, 2, 1] = concat (map cellFaces fs)
          \<and> list_all (cellFacesOk Quads) fs)
   \<and> length [0, 3, 2, 1 :: 32 word] \<le> 4 * (3 * 4)"
proof -
  note t = GetStatus_exclusive [where m = "yM False Map.empty" and isoV = "1/2" and x = 1
      and y = 0 and z = 1 and xOffset = 0 and yOffset = 1 and zOffset = 0 and topology = Quads
      and mesh = emptyMesh and st = "(yM False Map.empty, emptyMesh)" and d = "(4, 3, 4)"]
  have i: "indices (snd (BuildInternal (yM False Map.empty) (1/2) Quads emptyMesh)) = [0, 3, 2, 1]"
    by (simp add: yM_BuildInternal faceIndices_def)
  have n: "length (sweepCells (dims (yM False Map.empty))) = 4"
    by (simp add: yM_fields length_sweepCells)
  have e: "indices emptyMesh = []" by (simp add: emptyMesh_def)
  from t have "\<exists>fs. length fs = 4 \<and> [0, 3, 2, 1] = concat (map cellFaces fs)
          \<and> list_all (cellFacesOk Quads) fs"
    unfolding i n e by simp
  moreover from t have "\<not> (fst (GetStatus (yM False Map.empty) (1/2) 1 0 1 0 1 0)
        \<and> snd (GetStatus (yM False Map.empty) (1/2) 1 0 1 0 1 0))"
    by blast
  ultimately show ?thesis
    using i n by (simp add: yM_status yM_fields length_sweepCells)
qed

section \<open>The manifold rule (C3)\<close>

text \<open>
  Claim C3. The cube code that \<open>GetDualPointCode\<close> looks up is the code of
  \<open>GetCellCode\<close> XOR \<open>0xff\<close> exactly when the manifold flag is set, the code is marked
  ambiguous in \<open>problematicConfigs\<close>, the neighbour along the decoded axis and sign is in
  the valid cell range of that axis, and the neighbour's code is marked ambiguous too;
  in every other case, and always when the flag is off, it is the code of
  \<open>GetCellCode\<close> unchanged. The XOR is the 8-bit complement \<open>255 - code\<close>, which differs
  from the code, so the condition is necessary as well as sufficient.
\<close>

theorem ManifoldCubeCode_rule:
  "ManifoldCubeCode m cell isoV =
     (let code = GetCellCode m cell isoV;
          neighbor = ambiguousNeighbor cell code
      in if generateManifold m \<and> ambiguous code
            \<and> validOnAxis m neighbor (ambiguousAxis code)
            \<and> ambiguous (GetCellCode m neighbor isoV)
         then code XOR 255 else code)
   \<and> GetCellCode m cell isoV XOR 255 = 255 - GetCellCode m cell isoV
   \<and> GetCellCode m cell isoV XOR 255 \<noteq> GetCellCode m cell isoV
   \<and> GetDualPointCode m cell isoV edge =
       scanDualPoints (ManifoldCubeCode m cell isoV) edge [0, 1, 2, 3]"
proof -
  have r: "0 \<le> GetCellCode m c isoV \<and> GetCellCode m c isoV < 256" for c
    by (rule GetCellCode_range)
  have md: "nat (GetCellCode m c isoV mod 256) = nat (GetCellCode m c isoV)" for c
    using r [of c] by simp
  have x: "GetCellCode m cell isoV XOR 255 = 255 - GetCellCode m cell isoV"
    using r [of cell] by (simp add: xor_255_complement)
  have ne: "GetCellCode m cell isoV XOR 255 \<noteq> GetCellCode m cell isoV"
    unfolding x by presburger
  have main: "ManifoldCubeCode m cell isoV =
     (let code = GetCellCode m cell isoV;
          neighbor = ambiguousNeighbor cell code
      in if generateManifold m \<and> ambiguous code
            \<and> validOnAxis m neighbor (ambiguousAxis code)
            \<and> ambiguous (GetCellCode m neighbor isoV)
         then code XOR 255 else code)"
    by (auto simp: ManifoldCubeCode_def Let_def md ambiguous_def ambiguousNeighbor_def
          ambiguousAxis_def ambiguousSign_def validOnAxis_def drop_bit_eq_div and_one_eq
          odd_iff_mod_2_eq_one)
  show ?thesis
    using main x ne by (simp add: GetDualPointCode_def)
qed

text \<open>The rule at the two cells of \<open>ambiguousPairVolume\<close>: with the flag set both codes are
  inverted, with the flag off the code is kept.\<close>

theorem ManifoldCubeCode_rule_witness:
  "GetCellCode (aM True) (0, 0, 0) (1/2) = 61
   \<and> ambiguous 61 \<and> ambiguousNeighbor (0, 0, 0) 61 = (1, 0, 0)
   \<and> validOnAxis (aM True) (1, 0, 0) 0
   \<and> GetCellCode (aM True) (1, 0, 0) (1/2) = 62 \<and> ambiguous 62
   \<and> ManifoldCubeCode (aM True) (0, 0, 0) (1/2) = 194
   \<and> ManifoldCubeCode (aM False) (0, 0, 0) (1/2) = 61
   \<and> ambiguousNeighbor (1, 0, 0) 62 = (0, 0, 0)
   \<and> ManifoldCubeCode (aM True) (1, 0, 0) (1/2) = 193"
  using ManifoldCubeCode_rule [of "aM True" "(0, 0, 0)" "1/2"]
    ManifoldCubeCode_rule [of "aM False" "(0, 0, 0)" "1/2"]
    ManifoldCubeCode_rule [of "aM True" "(1, 0, 0)" "1/2"]
  by (simp add: aM_codes ambiguous_61_62 ambiguousNeighbor_def validOnAxis_def aM_fields)

section \<open>The number of flagged edges (C7)\<close>

text \<open>
  Claim C7, as amended. Every nonzero entry of \<open>dualPointsList\<close>, and so every nonzero
  point code that \<open>GetDualPointCode\<close> returns, is a 12-bit value with at least 3 and at
  most 7 set bits, and the number of its set bits is the counter \<open>points\<close> by which
  \<open>CalculateDualPoint\<close> divides. (The claim's bounds are 1 and 4.)
\<close>

theorem flagged_edge_count:
  "(\<forall>c<256. \<forall>i<4. dualPointsList ! c ! i \<noteq> 0 \<longrightarrow>
      snd (sumEdges m cell isoV (dualPointsList ! c ! i)) = flaggedEdges (dualPointsList ! c ! i)
      \<and> 0 \<le> dualPointsList ! c ! i \<and> dualPointsList ! c ! i < 4096
      \<and> 3 \<le> snd (sumEdges m cell isoV (dualPointsList ! c ! i))
      \<and> snd (sumEdges m cell isoV (dualPointsList ! c ! i)) \<le> 7)
   \<and> (GetDualPointCode m' cell' isoV' edge \<noteq> 0 \<longrightarrow>
        3 \<le> snd (sumEdges m cell isoV (GetDualPointCode m' cell' isoV' edge))
        \<and> snd (sumEdges m cell isoV (GetDualPointCode m' cell' isoV' edge)) \<le> 7)"
proof (intro conjI allI impI)
  fix c i :: nat
  assume "c < 256" "i < 4" "dualPointsList ! c ! i \<noteq> 0"
  with dualPointsList_entry [of c i]
  have e: "0 \<le> dualPointsList ! c ! i" "dualPointsList ! c ! i < 4096"
      "3 \<le> flaggedEdges (dualPointsList ! c ! i)" "flaggedEdges (dualPointsList ! c ! i) \<le> 7"
    by simp_all
  show "snd (sumEdges m cell isoV (dualPointsList ! c ! i)) = flaggedEdges (dualPointsList ! c ! i)"
    by (rule points_flaggedEdges)
  show "0 \<le> dualPointsList ! c ! i" "dualPointsList ! c ! i < 4096" by (rule e)+
  show "3 \<le> snd (sumEdges m cell isoV (dualPointsList ! c ! i))"
    "snd (sumEdges m cell isoV (dualPointsList ! c ! i)) \<le> 7"
    using e by (simp_all add: points_flaggedEdges)
next
  assume nz: "GetDualPointCode m' cell' isoV' edge \<noteq> 0"
  with GetDualPointCode_entry [of m' cell' isoV' edge]
  obtain c i where ci: "c < 256" "i < 4"
      "GetDualPointCode m' cell' isoV' edge = dualPointsList ! c ! i"
    by blast
  with nz dualPointsList_entry [of c i]
  have "3 \<le> flaggedEdges (dualPointsList ! c ! i) \<and> flaggedEdges (dualPointsList ! c ! i) \<le> 7"
    by simp
  then show "3 \<le> snd (sumEdges m cell isoV (GetDualPointCode m' cell' isoV' edge))"
    "snd (sumEdges m cell isoV (GetDualPointCode m' cell' isoV' edge)) \<le> 7"
    by (simp_all add: points_flaggedEdges ci)
qed


theorem flagged_edge_count_witness:
  "(7::nat) < 256 \<and> (0::nat) < 4 \<and> dualPointsList ! 7 ! 0 \<noteq> 0
   \<and> 3 \<le> snd (sumEdges freshMesher (0, 0, 0) 0 (dualPointsList ! 7 ! 0))
   \<and> snd (sumEdges freshMesher (0, 0, 0) 0 (dualPointsList ! 7 ! 0)) \<le> 7
   \<and> GetDualPointCode (yM False Map.empty) (1, 0, 1) (1/2) EDGE8 \<noteq> 0
   \<and> 3 \<le> snd (sumEdges freshMesher (0, 0, 0) 0
               (GetDualPointCode (yM False Map.empty) (1, 0, 1) (1/2) EDGE8))
   \<and> snd (sumEdges freshMesher (0, 0, 0) 0
               (GetDualPointCode (yM False Map.empty) (1, 0, 1) (1/2) EDGE8)) \<le> 7"
proof -
  have nz: "dualPointsList ! 7 ! 0 \<noteq> 0"
    by (simp add: dualPointsList_rows EDGE_defs)
  have nz': "GetDualPointCode (yM False Map.empty) (1, 0, 1) (1/2) EDGE8 \<noteq> 0"
    by (simp add: yM_pcodes)
  note t = flagged_edge_count [where m = freshMesher and cell = "(0, 0, 0)" and isoV = 0
      and m' = "yM False Map.empty" and cell' = "(1, 0, 1)" and isoV' = "1/2" and edge = EDGE8]
  from t [THEN conjunct1, rule_format, of 7 0] t [THEN conjunct2, rule_format] nz nz'
  show ?thesis by simp
qed

text \<open>The entry \<open>dualPointsList[7][0]\<close> is nonzero and flags five edges, more than four.\<close>

theorem flagged_edge_count_counterexample:
  "dualPointsList ! 7 ! 0 \<noteq> 0
   \<and> snd (sumEdges freshMesher (0, 0, 0) 0 (dualPointsList ! 7 ! 0)) = 5
   \<and> \<not> (1 \<le> snd (sumEdges freshMesher (0, 0, 0) 0 (dualPointsList ! 7 ! 0))
        \<and> snd (sumEdges freshMesher (0, 0, 0) 0 (dualPointsList ! 7 ! 0)) \<le> 4)"
  by (simp add: dualPointsList_rows EDGE_defs points_flaggedEdges flaggedEdges_def bit_numeral_simps)

section \<open>Uniform volumes (C5)\<close>

text \<open>
  Claim C5. When the assertions of \<open>Build\<close> hold (no negative dimension, a buffer that
  is not empty and holds at least \<open>dimX * dimY * dimZ\<close> samples) and either every sample
  is \<open>\<ge> iso\<close> or every sample is \<open>< iso\<close>, \<open>Build\<close> returns a mesh with no vertex and
  no index, for every manifold flag and topology.
\<close>

theorem uniform_volume_empty:
  assumes "0 \<le> d0" "0 \<le> d1" "0 \<le> d2" "data \<noteq> []" "nat (d0 * d1 * d2) \<le> length data"
    and "(\<forall>s\<in>set data. s \<ge> isoV) \<or> (\<forall>s\<in>set data. s < isoV)"
  shows "Build m data (d0, d1, d2) isoV manifold topology = Some \<lparr>vertices = [], indices = []\<rparr>"
proof -
  let ?m = "m\<lparr>volume := data, dims := (d0, d1, d2), generateManifold := manifold\<rparr>"
  have "BuildInternal ?m isoV topology \<lparr>vertices = [], indices = []\<rparr>
          = (?m\<lparr>pointToIndex := Map.empty\<rparr>, \<lparr>vertices = [], indices = []\<rparr>)"
    using assms by (intro BuildInternal_uniform [where ?d0.0 = d0 and ?d1.0 = d1 and ?d2.0 = d2]) simp_all
  then show ?thesis
    using assms by (simp add: Build_def)
qed

theorem uniform_volume_empty_witness:
  "(0::int) \<le> 4 \<and> zeroVolume \<noteq> [] \<and> nat (4 * 4 * 4) \<le> length zeroVolume
   \<and> list_all (\<lambda>s. s < 1/2) zeroVolume \<and> list_all (\<lambda>s. s \<ge> 0) zeroVolume
   \<and> Build freshMesher zeroVolume (4, 4, 4) (1/2) True Quads = Some \<lparr>vertices = [], indices = []\<rparr>
   \<and> Build freshMesher zeroVolume (4, 4, 4) 0 False Triangles = Some \<lparr>vertices = [], indices = []\<rparr>"
proof -
  have h: "zeroVolume \<noteq> []" "nat (4 * 4 * 4) \<le> length zeroVolume"
    "\<forall>s\<in>set zeroVolume. s < 1/2" "\<forall>s\<in>set zeroVolume. s \<ge> 0"
    by (simp_all add: zeroVolume_def)
  show ?thesis
    using h uniform_volume_empty [of 4 4 4 zeroVolume "1/2" freshMesher True Quads]
      uniform_volume_empty [of 4 4 4 zeroVolume 0 freshMesher False Triangles]
    by (simp add: list_all_iff)
qed

section \<open>Indices refer to existing vertices (C10)\<close>

text \<open>
  Claim C10. In the mesh that \<open>Build\<close> returns, every value of the index sequence,
  read as an unsigned number, is less than the number of vertices, for every input,
  manifold flag and topology. (The index of a new vertex is the vertex count cast to
  \<open>uint32_t\<close>, which is never more than the count.)
\<close>

theorem indices_below_vertex_count:
  assumes "Build m data dimension isoV manifold topology = Some mesh"
  shows "\<forall>i\<in>set (indices mesh). unat i < length (vertices mesh)"
proof -
  let ?m = "m\<lparr>volume := data, dims := dimension, generateManifold := manifold\<rparr>"
  obtain d0 d1 d2 where d: "dimension = (d0, d1, d2)" by (cases dimension)
  have "indicesBelow (BuildInternal ?m isoV topology \<lparr>vertices = [], indices = []\<rparr>)"
  proof (rule BuildInternal_invariant [where ?d0.0 = d0 and ?d1.0 = d1 and ?d2.0 = d2])
    show "dims ?m = (d0, d1, d2)" by (simp add: d)
    show "indicesBelow (?m\<lparr>pointToIndex := Map.empty\<rparr>, \<lparr>vertices = [], indices = []\<rparr>)"
      by (simp add: indicesBelow_def cacheBelow_def)
    show "indicesBelow (cellStep isoV topology x y z st)" if st: "indicesBelow st" for x y z st
    proof (rule cellStep_invariant [where P = indicesBelow])
      show "indicesBelow (ConstructFace isoV topology cond cells edges s)" if "indicesBelow s"
        for cond cells edges s
        using that by (rule ConstructFace_below)
      show "indicesBelow st" by (rule st)
    qed
  qed
  moreover have "mesh = snd (BuildInternal ?m isoV topology \<lparr>vertices = [], indices = []\<rparr>)"
    using assms by (auto simp: Build_def d Let_def split: if_splits)
  ultimately show ?thesis
    by (simp add: indicesBelow_def)
qed

theorem indices_below_vertex_count_witness:
  "Build freshMesher yEdgeVolume (4, 3, 4) (1/2) False Quads =
     Some \<lparr>vertices = [\<lparr>position = (7/6, 1/6, 7/6)\<rparr>, \<lparr>position = (7/6, 1/6, 5/6)\<rparr>,
                       \<lparr>position = (5/6, 1/6, 5/6)\<rparr>, \<lparr>position = (5/6, 1/6, 7/6)\<rparr>],
           indices = [0, 3, 2, 1]\<rparr>
   \<and> list_all (\<lambda>i. unat i < 4) [0, 3, 2, 1 :: 32 word]"
  using indices_below_vertex_count [OF yM_Build [of False Quads]] yM_Build [of False Quads]
  by (simp add: faceIndices_def)

section \<open>Index counts of the two topologies (C6)\<close>

text \<open>
  Claim C6. For the same buffer, dimensions, threshold and manifold flag, \<open>Build\<close>
  with \<open>Quads\<close> and \<open>Build\<close> with \<open>Triangles\<close> fail together or succeed together; when
  they succeed, the quad index count is divisible by 4, the triangle index count is
  divisible by 3 and is exactly 1.5 times the quad index count (twice the one is three
  times the other), and both meshes have the same vertices.
\<close>

theorem index_count_by_topology:
  "(Build m data dimension isoV manifold Quads = None
      \<longleftrightarrow> Build m data dimension isoV manifold Triangles = None)
   \<and> (\<forall>q t. Build m data dimension isoV manifold Quads = Some q
        \<longrightarrow> Build m data dimension isoV manifold Triangles = Some t
        \<longrightarrow> 4 dvd length (indices q) \<and> 3 dvd length (indices t)
            \<and> 2 * length (indices t) = 3 * length (indices q)
            \<and> vertices t = vertices q)"
proof (intro conjI allI impI)
  show "Build m data dimension isoV manifold Quads = None
      \<longleftrightarrow> Build m data dimension isoV manifold Triangles = None"
    by (simp add: Build_def Let_def split: prod.split)
next
  fix q t
  assume q: "Build m data dimension isoV manifold Quads = Some q"
    and t: "Build m data dimension isoV manifold Triangles = Some t"
  let ?m = "m\<lparr>volume := data, dims := dimension, generateManifold := manifold\<rparr>"
  have "q = snd (BuildInternal ?m isoV Quads \<lparr>vertices = [], indices = []\<rparr>)"
    using q by (auto simp: Build_def Let_def split: prod.splits if_splits)
  moreover have "t = snd (BuildInternal ?m isoV Triangles \<lparr>vertices = [], indices = []\<rparr>)"
    using t by (auto simp: Build_def Let_def split: prod.splits if_splits)
  ultimately obtain n where n: "length (indices q) = 4 * n" "length (indices t) = 6 * n"
    and v: "vertices q = vertices t"
    using BuildInternal_sameFaces [of ?m isoV] by (auto simp: sameFaces_def)
  show "4 dvd length (indices q)" by (simp add: n)
  show "3 dvd length (indices t)" by (simp add: n)
  show "2 * length (indices t) = 3 * length (indices q)" by (simp add: n)
  show "vertices t = vertices q" by (simp add: v)
qed

theorem index_count_by_topology_witness:
  "Build freshMesher yEdgeVolume (4, 3, 4) (1/2) True Quads =
     Some \<lparr>vertices = [\<lparr>position = (7/6, 1/6, 7/6)\<rparr>, \<lparr>position = (7/6, 1/6, 5/6)\<rparr>,
                       \<lparr>position = (5/6, 1/6, 5/6)\<rparr>, \<lparr>position = (5/6, 1/6, 7/6)\<rparr>],
           indices = [0, 3, 2, 1]\<rparr>
   \<and> Build freshMesher yEdgeVolume (4, 3, 4) (1/2) True Triangles =
     Some \<lparr>vertices = [\<lparr>position = (7/6, 1/6, 7/6)\<rparr>, \<lparr>position = (7/6, 1/6, 5/6)\<rparr>,
                       \<lparr>position = (5/6, 1/6, 5/6)\<rparr>, \<lparr>position = (5/6, 1/6, 7/6)\<rparr>],
           indices = [2, 1, 0, 0, 3, 2]\<rparr>
   \<and> (4::nat) dvd length [0, 3, 2, 1 :: 32 word]
   \<and> (3::nat) dvd length [2, 1, 0, 0, 3, 2 :: 32 word]
   \<and> 2 * length [2, 1, 0, 0, 3, 2 :: 32 word] = 3 * length [0, 3, 2, 1 :: 32 word]"
proof -
  note q = yM_Build [of True Quads] and t = yM_Build [of True Triangles]
  from index_count_by_topology [of freshMesher yEdgeVolume "(4, 3, 4)" "1/2" True,
      THEN conjunct2, rule_format, OF q t] q t
  show ?thesis by (simp add: faceIndices_def)
qed

section \<open>The vertex cache (C4)\<close>

text \<open>
  Claim C4. A request \<open>GetSharedDualPointIndex\<close> for a key that the cache does not hold
  appends exactly one vertex, returns the vertex count before the append as a
  \<open>uint32_t\<close> (which is that count as a number while the count is below \<open>2^32\<close>), and
  records the key with this index. A request for a key that the cache holds returns
  the recorded index and changes neither the cache nor the vertices. No request changes
  or removes an entry of the cache. After the sweep of one \<open>BuildInternal\<close> call the
  vertices are the dual points of a list of origins whose keys are pairwise distinct,
  these keys are exactly the keys of the cache, and the cache maps the key of the
  \<open>j\<close>-th vertex to \<open>j\<close>: no two vertices share a key.
\<close>

theorem dual_point_cache:
  "(pointToIndex m (DualPointKey (gA3 m cell) (GetDualPointCode m cell isoV edge)) = None \<longrightarrow>
      GetSharedDualPointIndex m cell isoV edge vs =
        (word_of_nat (length vs),
         m\<lparr>pointToIndex := (pointToIndex m)
             (DualPointKey (gA3 m cell) (GetDualPointCode m cell isoV edge)
                \<mapsto> word_of_nat (length vs))\<rparr>,
         vs @ [CalculateDualPoint m cell isoV (GetDualPointCode m cell isoV edge)])
      \<and> (length vs < 2 ^ 32 \<longrightarrow> unat (word_of_nat (length vs) :: 32 word) = length vs))
   \<and> (\<forall>i. pointToIndex m (DualPointKey (gA3 m cell) (GetDualPointCode m cell isoV edge)) = Some i
         \<longrightarrow> GetSharedDualPointIndex m cell isoV edge vs = (i, m, vs))
   \<and> pointToIndex m \<subseteq>\<^sub>m pointToIndex (fst (snd (GetSharedDualPointIndex m cell isoV edge vs)))
   \<and> (\<exists>os. cacheOrigins (m\<lparr>pointToIndex := Map.empty\<rparr>) isoV
              (BuildInternal m isoV topology \<lparr>vertices = [], indices = []\<rparr>) os)"
  using GetSharedDualPointIndex_miss [of m cell isoV edge vs]
    GetSharedDualPointIndex_hit [of m cell isoV edge _ vs]
    GetSharedDualPointIndex_keeps [of m cell isoV edge vs]
    BuildInternal_origins [of m isoV topology] vertex_id_is_count [of "length vs"]
  by blast

theorem dual_point_cache_witness:
  "pointToIndex (yM False Map.empty)
      (DualPointKey (gA3 (yM False Map.empty) (1, 0, 1))
         (GetDualPointCode (yM False Map.empty) (1, 0, 1) (1/2) EDGE8)) = None
   \<and> GetSharedDualPointIndex (yM False Map.empty) (1, 0, 1) (1/2) EDGE8 [] =
       (0, yM False [DualPointKey 13 265 \<mapsto> 0], [\<lparr>position = (7/6, 1/6, 7/6)\<rparr>])
   \<and> pointToIndex (yM False [DualPointKey 13 265 \<mapsto> 0])
      (DualPointKey (gA3 (yM False [DualPointKey 13 265 \<mapsto> 0]) (1, 0, 1))
         (GetDualPointCode (yM False [DualPointKey 13 265 \<mapsto> 0]) (1, 0, 1) (1/2) EDGE8)) = Some 0
   \<and> GetSharedDualPointIndex (yM False [DualPointKey 13 265 \<mapsto> 0]) (1, 0, 1) (1/2) EDGE8
         [\<lparr>position = (7/6, 1/6, 7/6)\<rparr>] =
       (0, yM False [DualPointKey 13 265 \<mapsto> 0], [\<lparr>position = (7/6, 1/6, 7/6)\<rparr>])
   \<and> (\<exists>os. cacheOrigins (yM False Map.empty) (1/2)
              (BuildInternal (yM False Map.empty) (1/2) Quads \<lparr>vertices = [], indices = []\<rparr>) os)"
proof -
  have miss: "pointToIndex (yM False Map.empty)
      (DualPointKey (gA3 (yM False Map.empty) (1, 0, 1))
         (GetDualPointCode (yM False Map.empty) (1, 0, 1) (1/2) EDGE8)) = None"
    by (simp add: yM_fields)
  have hit: "pointToIndex (yM False [DualPointKey 13 265 \<mapsto> 0])
      (DualPointKey (gA3 (yM False [DualPointKey 13 265 \<mapsto> 0]) (1, 0, 1))
         (GetDualPointCode (yM False [DualPointKey 13 265 \<mapsto> 0]) (1, 0, 1) (1/2) EDGE8)) = Some 0"
    by (simp add: yM_fields yM_pcodes gA3_def yM_gA)
  from dual_point_cache [of "yM False Map.empty" "(1, 0, 1)" "1/2" EDGE8 "[]" Quads] miss
  have 1: "GetSharedDualPointIndex (yM False Map.empty) (1, 0, 1) (1/2) EDGE8 [] =
       (0, yM False [DualPointKey 13 265 \<mapsto> 0], [\<lparr>position = (7/6, 1/6, 7/6)\<rparr>])"
    and 3: "\<exists>os. cacheOrigins (yM False Map.empty) (1/2)
              (BuildInternal (yM False Map.empty) (1/2) Quads \<lparr>vertices = [], indices = []\<rparr>) os"
    by (simp_all add: yM_fields yM_pcodes yM_vertices gA3_def yM_gA)
  from dual_point_cache [of "yM False [DualPointKey 13 265 \<mapsto> 0]" "(1, 0, 1)" "1/2" EDGE8
      "[\<lparr>position = (7/6, 1/6, 7/6)\<rparr>]" Quads] hit
  have 2: "GetSharedDualPointIndex (yM False [DualPointKey 13 265 \<mapsto> 0]) (1, 0, 1) (1/2) EDGE8
         [\<lparr>position = (7/6, 1/6, 7/6)\<rparr>] =
       (0, yM False [DualPointKey 13 265 \<mapsto> 0], [\<lparr>position = (7/6, 1/6, 7/6)\<rparr>])"
    by blast
  from miss hit 1 2 3 show ?thesis by blast
qed

section \<open>A corner sample of a \<open>3\<times>3\<times>3\<close> volume (C2)\<close>

text \<open>
  Claim C2, as amended. For every \<open>3\<times>3\<times>3\<close> volume (a buffer of at least 27 samples),
  in particular for one of ones with a single corner sample \<open>0\<close> and threshold \<open>1/2\<close>,
  \<open>Build\<close> returns the empty mesh, for every threshold, manifold flag and topology:
  the sweep visits the cell \<open>(0, 0, 0)\<close> only, where none of the three axis blocks is
  enabled. There is no patch around the corner, and no vertex outside the unit cell at
  the corner, since there is no vertex.
\<close>

theorem volume_3x3x3_empty:
  assumes "27 \<le> length data"
  shows "Build m data (3, 3, 3) isoV manifold topology = Some \<lparr>vertices = [], indices = []\<rparr>"
proof -
  from assms have "data \<noteq> []" by auto
  with assms show ?thesis
    by (simp add: Build_def BuildInternal_3x3x3)
qed

theorem volume_3x3x3_empty_witness:
  "27 \<le> length cornerVolume
   \<and> Build freshMesher cornerVolume (3, 3, 3) (1/2) True Triangles
       = Some \<lparr>vertices = [], indices = []\<rparr>"
  using volume_3x3x3_empty [of cornerVolume freshMesher "1/2" True Triangles]
  by (simp add: cornerVolume_def)

theorem corner_patch_counterexample:
  "length cornerVolume = 27 \<and> cornerVolume ! 0 = 0 \<and> list_all (\<lambda>s. s = 1) (tl cornerVolume)
   \<and> Build freshMesher cornerVolume (3, 3, 3) (1/2) False Quads
       = Some \<lparr>vertices = [], indices = []\<rparr>
   \<and> Build freshMesher cornerVolume (3, 3, 3) (1/2) False Triangles
       = Some \<lparr>vertices = [], indices = []\<rparr>
   \<and> Build freshMesher cornerVolume (3, 3, 3) (1/2) True Quads
       = Some \<lparr>vertices = [], indices = []\<rparr>"
proof -
  have "cornerVolume \<noteq> []" using cornerVolume_samples by auto
  then show ?thesis
    using cornerVolume_samples by (simp add: Build_def BuildInternal_3x3x3)
qed

section \<open>The winding of a face (C1)\<close>

text \<open>
  Claim C1, as amended. For a sign-change crossing that an axis block of the loop body
  detects, the block appends the four indices \<open>i0, i1, i2, i3\<close> that the four requests of
  \<open>ConstructFace\<close> return, in this order: for an x edge, \<open>(i0, i1, i2, i3)\<close> when the
  crossing is entering and \<open>(i0, i3, i2, i1)\<close> when it is exiting; for a y edge and for a
  z edge, \<open>(i0, i1, i2, i3)\<close> when the crossing is exiting and \<open>(i0, i3, i2, i1)\<close> when it
  is entering. With triangles the two orders are \<open>(i0, i1, i2) + (i2, i3, i0)\<close> and
  \<open>(i2, i1, i0) + (i0, i3, i2)\<close>. (The x block passes \<open>entering\<close> to \<open>ConstructFace\<close>,
  the y and z blocks pass \<open>exiting\<close>; the claim has the rule of the x block for all
  three.)
\<close>

theorem face_winding_by_axis:
  "(0 < z \<and> 0 < y
      \<and> (fst (GetStatus m isoV x y z 1 0 0) \<or> snd (GetStatus m isoV x y z 1 0 0)) \<longrightarrow>
     (case GetFaceIndices m isoV ((x, y, z), (x, y, z - 1), (x, y - 1, z - 1), (x, y - 1, z))
             (EDGE0, EDGE2, EDGE6, EDGE4) (vertices mesh) of
        ((i0, i1, i2, i3), m', vs') \<Rightarrow>
          xEdge isoV topology x y z (m, mesh) =
            (m', mesh\<lparr>vertices := vs', indices := indices mesh @
               (if fst (GetStatus m isoV x y z 1 0 0)
                then (if topology = Quads then [i0, i1, i2, i3] else [i0, i1, i2, i2, i3, i0])
                else (if topology = Quads then [i0, i3, i2, i1] else [i2, i1, i0, i0, i3, i2]))\<rparr>)))
   \<and> (0 < z \<and> 0 < x
      \<and> (fst (GetStatus m isoV x y z 0 1 0) \<or> snd (GetStatus m isoV x y z 0 1 0)) \<longrightarrow>
     (case GetFaceIndices m isoV ((x, y, z), (x, y, z - 1), (x - 1, y, z - 1), (x - 1, y, z))
             (EDGE8, EDGE11, EDGE10, EDGE9) (vertices mesh) of
        ((i0, i1, i2, i3), m', vs') \<Rightarrow>
          yEdge isoV topology x y z (m, mesh) =
            (m', mesh\<lparr>vertices := vs', indices := indices mesh @
               (if snd (GetStatus m isoV x y z 0 1 0)
                then (if topology = Quads then [i0, i1, i2, i3] else [i0, i1, i2, i2, i3, i0])
                else (if topology = Quads then [i0, i3, i2, i1] else [i2, i1, i0, i0, i3, i2]))\<rparr>)))
   \<and> (0 < x \<and> 0 < y
      \<and> (fst (GetStatus m isoV x y z 0 0 1) \<or> snd (GetStatus m isoV x y z 0 0 1)) \<longrightarrow>
     (case GetFaceIndices m isoV ((x, y, z), (x - 1, y, z), (x - 1, y - 1, z), (x, y - 1, z))
             (EDGE3, EDGE1, EDGE5, EDGE7) (vertices mesh) of
        ((i0, i1, i2, i3), m', vs') \<Rightarrow>
          zEdge isoV topology x y z (m, mesh) =
            (m', mesh\<lparr>vertices := vs', indices := indices mesh @
               (if snd (GetStatus m isoV x y z 0 0 1)
                then (if topology = Quads then [i0, i1, i2, i3] else [i0, i1, i2, i2, i3, i0])
                else (if topology = Quads then [i0, i3, i2, i1] else [i2, i1, i0, i0, i3, i2]))\<rparr>)))"
proof (intro conjI impI)
  assume h: "0 < z \<and> 0 < y
      \<and> (fst (GetStatus m isoV x y z 1 0 0) \<or> snd (GetStatus m isoV x y z 1 0 0))"
  show "case GetFaceIndices m isoV ((x, y, z), (x, y, z - 1), (x, y - 1, z - 1), (x, y - 1, z))
             (EDGE0, EDGE2, EDGE6, EDGE4) (vertices mesh) of
        ((i0, i1, i2, i3), m', vs') \<Rightarrow>
          xEdge isoV topology x y z (m, mesh) =
            (m', mesh\<lparr>vertices := vs', indices := indices mesh @
               (if fst (GetStatus m isoV x y z 1 0 0)
                then (if topology = Quads then [i0, i1, i2, i3] else [i0, i1, i2, i2, i3, i0])
                else (if topology = Quads then [i0, i3, i2, i1] else [i2, i1, i0, i0, i3, i2]))\<rparr>)"
    using h by (auto simp: xEdge_def ConstructFace_result faceIndices_def split: prod.splits)
next
  assume h: "0 < z \<and> 0 < x
      \<and> (fst (GetStatus m isoV x y z 0 1 0) \<or> snd (GetStatus m isoV x y z 0 1 0))"
  have ex: "\<not> (fst (GetStatus m isoV x y z 0 1 0) \<and> snd (GetStatus m isoV x y z 0 1 0))"
    by (auto simp: GetStatus_def Let_def)
  show "case GetFaceIndices m isoV ((x, y, z), (x, y, z - 1), (x - 1, y, z - 1), (x - 1, y, z))
             (EDGE8, EDGE11, EDGE10, EDGE9) (vertices mesh) of
        ((i0, i1, i2, i3), m', vs') \<Rightarrow>
          yEdge isoV topology x y z (m, mesh) =
            (m', mesh\<lparr>vertices := vs', indices := indices mesh @
               (if snd (GetStatus m isoV x y z 0 1 0)
                then (if topology = Quads then [i0, i1, i2, i3] else [i0, i1, i2, i2, i3, i0])
                else (if topology = Quads then [i0, i3, i2, i1] else [i2, i1, i0, i0, i3, i2]))\<rparr>)"
    using h ex by (auto simp: yEdge_def ConstructFace_result faceIndices_def split: prod.splits)
next
  assume h: "0 < x \<and> 0 < y
      \<and> (fst (GetStatus m isoV x y z 0 0 1) \<or> snd (GetStatus m isoV x y z 0 0 1))"
  show "case GetFaceIndices m isoV ((x, y, z), (x - 1, y, z), (x - 1, y - 1, z), (x, y - 1, z))
             (EDGE3, EDGE1, EDGE5, EDGE7) (vertices mesh) of
        ((i0, i1, i2, i3), m', vs') \<Rightarrow>
          zEdge isoV topology x y z (m, mesh) =
            (m', mesh\<lparr>vertices := vs', indices := indices mesh @
               (if snd (GetStatus m isoV x y z 0 0 1)
                then (if topology = Quads then [i0, i1, i2, i3] else [i0, i1, i2, i2, i3, i0])
                else (if topology = Quads then [i0, i3, i2, i1] else [i2, i1, i0, i0, i3, i2]))\<rparr>)"
    using h by (auto simp: zEdge_def ConstructFace_result faceIndices_def split: prod.splits)
qed

theorem face_winding_by_axis_witness:
  "(0::int) < 1
   \<and> GetStatus (oM False Map.empty) (1/2) 1 1 1 1 0 0 = (True, False)
   \<and> indices (snd (xEdge (1/2) Quads 1 1 1 (oM False Map.empty, emptyMesh))) = [0, 1, 2, 3]
   \<and> indices (snd (xEdge (1/2) Triangles 1 1 1 (oM False Map.empty, emptyMesh)))
        = [0, 1, 2, 2, 3, 0]
   \<and> GetStatus (oM False Map.empty) (1/2) 1 1 1 0 1 0 = (True, False)
   \<and> indices (snd (yEdge (1/2) Quads 1 1 1 (oM False Map.empty, emptyMesh))) = [0, 3, 2, 1]
   \<and> indices (snd (yEdge (1/2) Triangles 1 1 1 (oM False Map.empty, emptyMesh)))
        = [2, 1, 0, 0, 3, 2]
   \<and> GetStatus (oM False Map.empty) (1/2) 1 1 1 0 0 1 = (True, False)
   \<and> indices (snd (zEdge (1/2) Quads 1 1 1 (oM False Map.empty, emptyMesh))) = [0, 3, 2, 1]
   \<and> indices (snd (zEdge (1/2) Triangles 1 1 1 (oM False Map.empty, emptyMesh)))
        = [2, 1, 0, 0, 3, 2]"
proof -
  note q = face_winding_by_axis [where x = 1 and y = 1 and z = 1 and m = "oM False Map.empty"
      and isoV = "1/2" and mesh = emptyMesh and topology = Quads]
  note t = face_winding_by_axis [where x = 1 and y = 1 and z = 1 and m = "oM False Map.empty"
      and isoV = "1/2" and mesh = emptyMesh and topology = Triangles]
  have v: "vertices emptyMesh = []" "indices emptyMesh = []" by (simp_all add: emptyMesh_def)
  from q t oM_faceIndices [of False] show ?thesis
    by (auto simp: oM_status v split: prod.splits)
qed

text \<open>In the volume \<open>yEdgeVolume\<close> the y edge from \<open>(1, 0, 1)\<close> is an entering crossing
  (origin sample \<open>1 \<ge> 1/2\<close>, stepped sample \<open>0 < 1/2\<close>); the four requests return the
  indices \<open>0, 1, 2, 3\<close>; the face is emitted as \<open>(i0, i3, i2, i1)\<close>, and as
  \<open>(i2, i1, i0) + (i0, i3, i2)\<close> with triangles.\<close>

theorem uniform_winding_counterexample:
  "GetStatus (yM False Map.empty) (1/2) 1 0 1 0 1 0 = (True, False)
   \<and> fst (GetFaceIndices (yM False Map.empty) (1/2) ((1, 0, 1), (1, 0, 0), (0, 0, 0), (0, 0, 1))
           (EDGE8, EDGE11, EDGE10, EDGE9) []) = (0, 1, 2, 3)
   \<and> indices (snd (yEdge (1/2) Quads 1 0 1 (yM False Map.empty, emptyMesh))) = [0, 3, 2, 1]
   \<and> indices (snd (yEdge (1/2) Triangles 1 0 1 (yM False Map.empty, emptyMesh)))
        = [2, 1, 0, 0, 3, 2]
   \<and> Build freshMesher yEdgeVolume (4, 3, 4) (1/2) False Quads =
       Some \<lparr>vertices = [\<lparr>position = (7/6, 1/6, 7/6)\<rparr>, \<lparr>position = (7/6, 1/6, 5/6)\<rparr>,
                         \<lparr>position = (5/6, 1/6, 5/6)\<rparr>, \<lparr>position = (5/6, 1/6, 7/6)\<rparr>],
             indices = [0, 3, 2, 1]\<rparr>"
  using yM_Build [of False Quads]
  by (simp add: yM_status yM_faceIndices yM_yEdge faceIndices_def)

section \<open>The region of the sweep (C8)\<close>

text \<open>
  Claim C8, as amended. \<open>BuildInternal\<close> is the fold of the loop body over the cells
  \<open>(x, y, z)\<close> with \<open>0 \<le> x \<le> dimX - 3\<close>, \<open>0 \<le> y \<le> dimY - 3\<close> and \<open>0 \<le> z \<le> dimZ - 3\<close>; the
  scanned range of an axis has \<open>dims - 2\<close> coordinates (none when \<open>dims < 2\<close>). The block
  of an axis changes the state, that is appends a face, only at a cell whose two other
  coordinates are at least \<open>1\<close>; the coordinate along the axis of the edge can be \<open>0\<close>.
  (The claim has every coordinate at least \<open>1\<close>.)
\<close>

theorem sweep_region:
  "BuildInternal m isoV topology mesh =
     foldl (\<lambda>st (x, y, z). cellStep isoV topology x y z st)
       (m\<lparr>pointToIndex := Map.empty\<rparr>, mesh) (sweepCells (dims m))
   \<and> ((x, y, z) \<in> set (sweepCells (d0, d1, d2)) \<longleftrightarrow>
        0 \<le> x \<and> x \<le> d0 - 3 \<and> 0 \<le> y \<and> y \<le> d1 - 3 \<and> 0 \<le> z \<and> z \<le> d2 - 3)
   \<and> length [0..d0 - 2 - 1] = nat (d0 - 2)
   \<and> length (sweepCells (d0, d1, d2)) = nat (d0 - 2) * nat (d1 - 2) * nat (d2 - 2)
   \<and> (xEdge isoV topology x y z st \<noteq> st \<longrightarrow> 1 \<le> y \<and> 1 \<le> z)
   \<and> (yEdge isoV topology x y z st \<noteq> st \<longrightarrow> 1 \<le> x \<and> 1 \<le> z)
   \<and> (zEdge isoV topology x y z st \<noteq> st \<longrightarrow> 1 \<le> x \<and> 1 \<le> y)"
proof (intro conjI impI)
  show "BuildInternal m isoV topology mesh =
     foldl (\<lambda>st (x, y, z). cellStep isoV topology x y z st)
       (m\<lparr>pointToIndex := Map.empty\<rparr>, mesh) (sweepCells (dims m))"
    by (rule BuildInternal_sweep)
  show "(x, y, z) \<in> set (sweepCells (d0, d1, d2)) \<longleftrightarrow>
        0 \<le> x \<and> x \<le> d0 - 3 \<and> 0 \<le> y \<and> y \<le> d1 - 3 \<and> 0 \<le> z \<and> z \<le> d2 - 3"
    by (rule sweepCells_member)
  show "length [0..d0 - 2 - 1] = nat (d0 - 2)" by simp
  show "length (sweepCells (d0, d1, d2)) = nat (d0 - 2) * nat (d1 - 2) * nat (d2 - 2)"
    by (rule length_sweepCells)
next
  assume "xEdge isoV topology x y z st \<noteq> st"
  then have "0 < z \<and> 0 < y" by (auto simp: xEdge_def split: if_splits)
  then show "1 \<le> y" "1 \<le> z" by simp_all
next
  assume "yEdge isoV topology x y z st \<noteq> st"
  then have "0 < z \<and> 0 < x" by (auto simp: yEdge_def split: if_splits)
  then show "1 \<le> x" "1 \<le> z" by simp_all
next
  assume "zEdge isoV topology x y z st \<noteq> st"
  then have "0 < x \<and> 0 < y" by (auto simp: zEdge_def split: if_splits)
  then show "1 \<le> x" "1 \<le> y" by simp_all
qed

theorem sweep_region_witness:
  "xEdge (1/2) Quads 1 1 1 (oM False Map.empty, emptyMesh) \<noteq> (oM False Map.empty, emptyMesh)
   \<and> yEdge (1/2) Quads 1 1 1 (oM False Map.empty, emptyMesh) \<noteq> (oM False Map.empty, emptyMesh)
   \<and> zEdge (1/2) Quads 1 1 1 (oM False Map.empty, emptyMesh) \<noteq> (oM False Map.empty, emptyMesh)
   \<and> (1::int) \<le> 1
   \<and> (1, 1, 1) \<in> set (sweepCells (4, 4, 4))
   \<and> length (sweepCells (4, 4, 4)) = 8"
proof -
  have x: "xEdge (1/2) Quads 1 1 1 (oM False Map.empty, emptyMesh) \<noteq> (oM False Map.empty, emptyMesh)"
    by (rule indices_differ) (simp only: oM_edge_indices snd_conv, simp add: emptyMesh_def faceIndices_def)
  have y: "yEdge (1/2) Quads 1 1 1 (oM False Map.empty, emptyMesh) \<noteq> (oM False Map.empty, emptyMesh)"
    by (rule indices_differ) (simp only: oM_edge_indices snd_conv, simp add: emptyMesh_def faceIndices_def)
  have z: "zEdge (1/2) Quads 1 1 1 (oM False Map.empty, emptyMesh) \<noteq> (oM False Map.empty, emptyMesh)"
    by (rule indices_differ) (simp only: oM_edge_indices snd_conv, simp add: emptyMesh_def faceIndices_def)
  note t = sweep_region [where x = 1 and y = 1 and z = 1 and ?d0.0 = 4 and ?d1.0 = 4 and ?d2.0 = 4
      and isoV = "1/2" and topology = Quads and st = "(oM False Map.empty, emptyMesh)"
      and m = "oM False Map.empty" and mesh = emptyMesh]
  from t x y z show ?thesis by simp
qed

text \<open>In the volume \<open>yEdgeVolume\<close> (dimensions \<open>4\<times>3\<times>4\<close>) the sweep visits the cell
  \<open>(1, 0, 1)\<close>, whose y coordinate is \<open>0\<close>, and appends a face there.\<close>

theorem border_cell_face_counterexample:
  "(1, 0, 1) \<in> set (sweepCells (4, 3, 4))
   \<and> \<not> insideBorder (4, 3, 4) (1, 0, 1)
   \<and> indices (snd (cellStep (1/2) Quads 1 0 1 (yM False Map.empty, emptyMesh))) = [0, 3, 2, 1]
   \<and> cellStep (1/2) Quads 1 0 1 (yM False Map.empty, emptyMesh) \<noteq> (yM False Map.empty, emptyMesh)
   \<and> Build freshMesher yEdgeVolume (4, 3, 4) (1/2) False Quads =
       Some \<lparr>vertices = [\<lparr>position = (7/6, 1/6, 7/6)\<rparr>, \<lparr>position = (7/6, 1/6, 5/6)\<rparr>,
                         \<lparr>position = (5/6, 1/6, 5/6)\<rparr>, \<lparr>position = (5/6, 1/6, 7/6)\<rparr>],
             indices = [0, 3, 2, 1]\<rparr>"
proof -
  have c: "cellStep (1/2) Quads 1 0 1 (yM False Map.empty, emptyMesh) =
     (yM False [DualPointKey 13 265 \<mapsto> 0, DualPointKey 1 2060 \<mapsto> 1, DualPointKey 0 1030 \<mapsto> 2,
         DualPointKey 12 515 \<mapsto> 3],
      \<lparr>vertices = [\<lparr>position = (7/6, 1/6, 7/6)\<rparr>, \<lparr>position = (7/6, 1/6, 5/6)\<rparr>,
                       \<lparr>position = (5/6, 1/6, 5/6)\<rparr>, \<lparr>position = (5/6, 1/6, 7/6)\<rparr>],
           indices = faceIndices Quads False 0 1 2 3\<rparr>)"
    by (rule yM_cellStep)
  have i: "indices (snd (cellStep (1/2) Quads 1 0 1 (yM False Map.empty, emptyMesh))) = [0, 3, 2, 1]"
    by (simp add: c faceIndices_def)
  have n: "cellStep (1/2) Quads 1 0 1 (yM False Map.empty, emptyMesh) \<noteq> (yM False Map.empty, emptyMesh)"
    by (rule indices_differ) (simp only: i snd_conv, simp add: emptyMesh_def)
  have s: "(1, 0, 1) \<in> set (sweepCells (4, 3, 4))"
    by (simp add: sweepCells_member)
  show ?thesis
    using i n s yM_Build [of False Quads]
    by (simp add: insideBorder_def faceIndices_def)
qed

end
